theory Spec2Isabelle
  imports Main "HOL-Library.Sublist"
begin

section \<open>Python values\<close>

text \<open>
  The backend (\<^verbatim>\<open>Backend/main.py\<close>) handles values decoded from JSON: the schedule table
  read from \<^verbatim>\<open>mock_schedule.json\<close> and the answer of the intent oracle. Pydantic does not
  validate on assignment, so the fields of the session hold whatever the oracle returned.
  The model therefore keeps them as JSON values. A dictionary is the list of its items in
  insertion order, every key once. JSON numbers with a fraction or an exponent are outside
  the model.

  A Python \<^verbatim>\<open>str\<close> is the list of its code points, restricted to code points below 256.
\<close>

datatype json =
    JNull
  | JBool bool
  | JInt int
  | JStr string
  | JList "json list"
  | JDict "(string \<times> json) list"

datatype py_error = AttributeError | TypeError | KeyError | ValueError | IndexError

text \<open>Sequencing of computations that may raise: the first exception wins.\<close>

fun bind_r :: "py_error + 'a \<Rightarrow> ('a \<Rightarrow> py_error + 'b) \<Rightarrow> py_error + 'b" where
  "bind_r (Inl e) f = Inl e"
| "bind_r (Inr x) f = f x"

text \<open>Truth value testing (\<^verbatim>\<open>if v:\<close>, \<^verbatim>\<open>not v\<close>, \<^verbatim>\<open>a and b\<close>).\<close>

fun truthy :: "json \<Rightarrow> bool" where
  "truthy JNull = False"
| "truthy (JBool b) = b"
| "truthy (JInt n) = (n \<noteq> 0)"
| "truthy (JStr s) = (s \<noteq> [])"
| "truthy (JList xs) = (xs \<noteq> [])"
| "truthy (JDict kvs) = (kvs \<noteq> [])"

text \<open>\<^verbatim>\<open>a or b\<close>.\<close>

definition py_or :: "json \<Rightarrow> json \<Rightarrow> json" where
  "py_or a b = (if truthy a then a else b)"

text \<open>The operator \<^verbatim>\<open>==\<close>: \<^verbatim>\<open>True == 1\<close>, and dictionaries compare regardless of order.\<close>

fun num_of :: "json \<Rightarrow> int option" where
  "num_of (JBool b) = Some (if b then 1 else 0)"
| "num_of (JInt n) = Some n"
| "num_of _ = None"

fun py_eq :: "json \<Rightarrow> json \<Rightarrow> bool" where
  "py_eq JNull y = (y = JNull)"
| "py_eq (JBool b) y = (num_of y = Some (if b then 1 else 0))"
| "py_eq (JInt n) y = (num_of y = Some n)"
| "py_eq (JStr s) y = (y = JStr s)"
| "py_eq (JList xs) y = (case y of JList ys \<Rightarrow> list_all2 py_eq xs ys | _ \<Rightarrow> False)"
| "py_eq (JDict kvs) y = (case y of
       JDict kws \<Rightarrow> length kvs = length kws \<and>
         list_all (\<lambda>(k, v). case map_of kws k of None \<Rightarrow> False | Some w \<Rightarrow> py_eq v w) kvs
     | _ \<Rightarrow> False)"

text \<open>\<^verbatim>\<open>d.get(key, default)\<close>: only a dictionary has the method; a list or a dictionary
  is not hashable; the keys of a decoded dictionary are strings.\<close>

fun dict_get :: "json \<Rightarrow> json \<Rightarrow> json \<Rightarrow> py_error + json" where
  "dict_get (JDict kvs) (JStr k) d = Inr (case map_of kvs k of Some v \<Rightarrow> v | None \<Rightarrow> d)"
| "dict_get (JDict kvs) (JList xs) d = Inl TypeError"
| "dict_get (JDict kvs) (JDict kws) d = Inl TypeError"
| "dict_get (JDict kvs) key d = Inr d"
| "dict_get r key d = Inl AttributeError"

text \<open>A lookup in the items of a dictionary, \<^verbatim>\<open>None\<close> for a missing key.\<close>

definition get0 :: "(string \<times> json) list \<Rightarrow> string \<Rightarrow> json" where
  "get0 kvs k = (case map_of kvs k of Some v \<Rightarrow> v | None \<Rightarrow> JNull)"

text \<open>Indexing a sequence, negative indices counting from the end.\<close>

definition seq_index :: "'a list \<Rightarrow> int \<Rightarrow> py_error + 'a" where
  "seq_index xs i =
     (if 0 \<le> i \<and> i < int (length xs) then Inr (xs ! nat i)
      else if i < 0 \<and> - i \<le> int (length xs) then Inr (xs ! nat (int (length xs) + i))
      else Inl IndexError)"

text \<open>\<^verbatim>\<open>r[key]\<close>.\<close>

fun py_getitem :: "json \<Rightarrow> json \<Rightarrow> py_error + json" where
  "py_getitem (JDict kvs) (JStr k) = (case map_of kvs k of Some v \<Rightarrow> Inr v | None \<Rightarrow> Inl KeyError)"
| "py_getitem (JDict kvs) (JList xs) = Inl TypeError"
| "py_getitem (JDict kvs) (JDict kws) = Inl TypeError"
| "py_getitem (JDict kvs) key = Inl KeyError"
| "py_getitem (JList xs) (JInt i) = seq_index xs i"
| "py_getitem (JList xs) (JBool b) = seq_index xs (if b then 1 else 0)"
| "py_getitem (JStr s) (JInt i) = map_sum id (\<lambda>c. JStr [c]) (seq_index s i)"
| "py_getitem (JStr s) (JBool b) = map_sum id (\<lambda>c. JStr [c]) (seq_index s (if b then 1 else 0))"
| "py_getitem r key = Inl TypeError"

text \<open>\<^verbatim>\<open>for x in v\<close>: a dictionary yields its keys, a string its characters.\<close>

fun py_iter :: "json \<Rightarrow> py_error + json list" where
  "py_iter (JList xs) = Inr xs"
| "py_iter (JDict kvs) = Inr (map (\<lambda>(k, v). JStr k) kvs)"
| "py_iter (JStr s) = Inr (map (\<lambda>c. JStr [c]) s)"
| "py_iter v = Inl TypeError"

text \<open>\<^verbatim>\<open>d.items()\<close>.\<close>

fun py_items :: "json \<Rightarrow> py_error + (string \<times> json) list" where
  "py_items (JDict kvs) = Inr kvs"
| "py_items v = Inl AttributeError"

text \<open>\<^verbatim>\<open>x in v\<close> for a string \<open>x\<close>: a key of a dictionary, an element of a list, a
  substring of a string.\<close>

fun str_in :: "string \<Rightarrow> json \<Rightarrow> py_error + bool" where
  "str_in x (JDict kvs) = Inr (x \<in> set (map fst kvs))"
| "str_in x (JList xs) = Inr (list_ex (py_eq (JStr x)) xs)"
| "str_in x (JStr s) = Inr (sublist x s)"
| "str_in x v = Inl TypeError"

section \<open>Strings\<close>

text \<open>\<^verbatim>\<open>str.lower()\<close> on code points below 256: the letters A to Z and the upper-case
  letters of Latin-1 (the multiplication sign 215 is not one).\<close>

definition lower_char :: "char \<Rightarrow> char" where
  "lower_char c =
     (let n = (of_char c :: nat)
      in if (65 \<le> n \<and> n \<le> 90) \<or> (192 \<le> n \<and> n \<le> 222 \<and> n \<noteq> 215)
         then char_of (n + 32) else c)"

definition str_lower :: "string \<Rightarrow> string" where
  "str_lower s = map lower_char s"

text \<open>\<^verbatim>\<open>str.upper()\<close>, on the letters a to z only: the code applies it to the text of a
  UUID, which is hexadecimal digits and dashes.\<close>

definition upper_char :: "char \<Rightarrow> char" where
  "upper_char c =
     (let n = (of_char c :: nat)
      in if 97 \<le> n \<and> n \<le> 122 then char_of (n - 32) else c)"

definition str_upper :: "string \<Rightarrow> string" where
  "str_upper s = map upper_char s"

text \<open>\<^verbatim>\<open>s.split(sep)\<close> for a separator of one character: never an empty list.\<close>

fun split_on :: "char \<Rightarrow> string \<Rightarrow> string list" where
  "split_on sep [] = [[]]"
| "split_on sep (c # cs) =
     (if c = sep then [] # split_on sep cs
      else (case split_on sep cs of [] \<Rightarrow> [[c]] | w # ws \<Rightarrow> (c # w) # ws))"

fun py_split :: "json \<Rightarrow> char \<Rightarrow> py_error + string list" where
  "py_split (JStr s) sep = Inr (split_on sep s)"
| "py_split v sep = Inl AttributeError"

text \<open>
  \<^verbatim>\<open>int(s)\<close> for a string: white space around the number is dropped, a sign may come
  first, and single underscores may separate digits. Anything else is a \<^verbatim>\<open>ValueError\<close>.
  The white space that \<^verbatim>\<open>int\<close> drops is the tabulator, the line feed, the vertical
  tabulator, the form feed, the carriage return and the blank (9 to 13 and 32), and of the
  code points from 128 on the next-line character 133 and the no-break space 160; the
  separators 28 to 31 are not dropped.
  The interpreter's limit on the number of digits (4300 by default) is not modelled.
\<close>

definition is_space :: "char \<Rightarrow> bool" where
  "is_space c =
     (let n = (of_char c :: nat)
      in (9 \<le> n \<and> n \<le> 13) \<or> n = 32 \<or> n = 133 \<or> n = 160)"

definition is_digit :: "char \<Rightarrow> bool" where
  "is_digit c = (let n = (of_char c :: nat) in 48 \<le> n \<and> n \<le> 57)"

definition digit_val :: "char \<Rightarrow> nat" where
  "digit_val c = of_char c - 48"

definition strip :: "string \<Rightarrow> string" where
  "strip s = rev (dropWhile is_space (rev (dropWhile is_space s)))"

fun parse_digits :: "bool \<Rightarrow> nat \<Rightarrow> string \<Rightarrow> nat option" where
  "parse_digits after_digit acc [] = (if after_digit then Some acc else None)"
| "parse_digits after_digit acc (c # cs) =
     (if is_digit c then parse_digits True (acc * 10 + digit_val c) cs
      else if c = CHR ''_'' \<and> after_digit then parse_digits False acc cs
      else None)"

definition int_of_str :: "string \<Rightarrow> int option" where
  "int_of_str s =
     (case strip s of
        [] \<Rightarrow> None
      | c # cs \<Rightarrow>
          if c = CHR ''-'' then map_option (\<lambda>n. - int n) (parse_digits False 0 cs)
          else if c = CHR ''+'' then map_option int (parse_digits False 0 cs)
          else map_option int (parse_digits False 0 (c # cs)))"

text \<open>\<^verbatim>\<open>int(v)\<close>: a list, a dictionary or \<^verbatim>\<open>None\<close> is a \<^verbatim>\<open>TypeError\<close>.\<close>

fun py_int :: "json \<Rightarrow> py_error + int" where
  "py_int (JInt n) = Inr n"
| "py_int (JBool b) = Inr (if b then 1 else 0)"
| "py_int (JStr s) = (case int_of_str s of Some n \<Rightarrow> Inr n | None \<Rightarrow> Inl ValueError)"
| "py_int v = Inl TypeError"

section \<open>The slot finder\<close>

text \<open>
  \<^verbatim>\<open>AgentTools.get_available_slots\<close>. The schedule table \<open>SCHEDULE_DATA\<close> is the content of
  \<^verbatim>\<open>mock_schedule.json\<close>, a parameter here. The filter on the time of day:
\<close>

definition time_filter_skips :: "json \<Rightarrow> int \<Rightarrow> py_error + bool" where
  "time_filter_skips time_preference hour =
     (case time_preference of
        JStr p \<Rightarrow>
          if str_lower p \<in> set [''morning'', ''am''] \<and> hour \<ge> 12 then Inr True
          else if str_lower p \<in> set [''afternoon'', ''pm''] \<and> (hour < 12 \<or> hour \<ge> 17)
            then Inr True
          else if str_lower p = ''evening'' \<and> hour < 17 then Inr True
          else Inr False
      | _ \<Rightarrow> Inl AttributeError)"

text \<open>\<^verbatim>\<open>int(slot["start_time"].split(":")[0])\<close>\<close>

definition start_hour :: "json \<Rightarrow> py_error + int" where
  "start_hour slot =
     bind_r (py_getitem slot (JStr ''start_time'')) (\<lambda>st.
     bind_r (py_split st CHR '':'') (\<lambda>parts.
     bind_r (seq_index parts 0) (\<lambda>p. py_int (JStr p))))"

text \<open>One round of the inner loop: the slot to append, if any.\<close>

definition visit_slot ::
  "json \<Rightarrow> json \<Rightarrow> json \<Rightarrow> string \<Rightarrow> json \<Rightarrow> json \<Rightarrow> py_error + json option" where
  "visit_slot SCHEDULE_DATA appointment_type time_preference day day_data slot =
     bind_r (dict_get slot (JStr ''available'') JNull) (\<lambda>available.
     if truthy available then
       bind_r (dict_get day_data (JStr ''date'') JNull) (\<lambda>d.
       bind_r (dict_get slot (JStr ''start_time'') JNull) (\<lambda>st.
       bind_r (dict_get slot (JStr ''end_time'') JNull) (\<lambda>et.
       bind_r (py_getitem SCHEDULE_DATA appointment_type) (\<lambda>entry.
       bind_r (py_getitem entry (JStr ''duration_minutes'')) (\<lambda>duration.
       let slot_info = JDict [(''day'', JStr day), (''date'', d), (''start_time'', st),
                              (''end_time'', et), (''duration'', duration)]
       in if truthy time_preference then
            bind_r (start_hour slot) (\<lambda>hour.
            bind_r (time_filter_skips time_preference hour) (\<lambda>skip.
            Inr (if skip then None else Some slot_info)))
          else Inr (Some slot_info))))))
     else Inr None)"

fun slots_loop ::
  "(json \<Rightarrow> py_error + json option) \<Rightarrow> json list \<Rightarrow> json list \<Rightarrow> py_error + json list" where
  "slots_loop visit [] available_slots = Inr available_slots"
| "slots_loop visit (slot # rest) available_slots =
     bind_r (visit slot) (\<lambda>r.
     slots_loop visit rest
       (case r of None \<Rightarrow> available_slots | Some slot_info \<Rightarrow> available_slots @ [slot_info]))"

text \<open>One round of the outer loop, over the days of the schedule of the type.\<close>

definition visit_day ::
  "json \<Rightarrow> json \<Rightarrow> json \<Rightarrow> json \<Rightarrow> string \<Rightarrow> json \<Rightarrow> json list \<Rightarrow> py_error + json list" where
  "visit_day SCHEDULE_DATA appointment_type date time_preference day day_data available_slots =
     bind_r (if truthy date
             then map_sum id (\<lambda>d. \<not> py_eq d date) (dict_get day_data (JStr ''date'') JNull)
             else Inr False) (\<lambda>other_date.
     if other_date then Inr available_slots
     else
       bind_r (dict_get day_data (JStr ''slots'') (JList [])) (\<lambda>slots.
       bind_r (py_iter slots) (\<lambda>slot_list.
       slots_loop (visit_slot SCHEDULE_DATA appointment_type time_preference day day_data)
         slot_list available_slots)))"

fun days_loop ::
  "json \<Rightarrow> json \<Rightarrow> json \<Rightarrow> json \<Rightarrow> (string \<times> json) list \<Rightarrow> json list \<Rightarrow> py_error + json list"
  where
  "days_loop SCHEDULE_DATA appointment_type date time_preference [] available_slots =
     Inr available_slots"
| "days_loop SCHEDULE_DATA appointment_type date time_preference ((day, day_data) # rest)
     available_slots =
     bind_r (visit_day SCHEDULE_DATA appointment_type date time_preference day day_data
               available_slots)
       (days_loop SCHEDULE_DATA appointment_type date time_preference rest)"

text \<open>The body of the \<^verbatim>\<open>try\<close> block, before the cut to ten results.\<close>

definition find_slots :: "json \<Rightarrow> json \<Rightarrow> json \<Rightarrow> json \<Rightarrow> py_error + json list" where
  "find_slots SCHEDULE_DATA appointment_type date time_preference =
     bind_r (dict_get SCHEDULE_DATA appointment_type (JDict [])) (\<lambda>entry.
     bind_r (dict_get entry (JStr ''schedule'') (JDict [])) (\<lambda>type_schedule.
     bind_r (py_items type_schedule) (\<lambda>days.
     days_loop SCHEDULE_DATA appointment_type date time_preference days [])))"

text \<open>Any exception is swallowed: the result is then the empty list.\<close>

definition get_available_slots :: "json \<Rightarrow> json \<Rightarrow> json \<Rightarrow> json \<Rightarrow> json list" where
  "get_available_slots SCHEDULE_DATA appointment_type date time_preference =
     (case find_slots SCHEDULE_DATA appointment_type date time_preference of
        Inr available_slots \<Rightarrow> take 10 available_slots
      | Inl e \<Rightarrow> [])"

section \<open>The type recommender\<close>

text \<open>\<^verbatim>\<open>any(word in reason_lower for word in words)\<close>\<close>

definition any_word_in :: "string list \<Rightarrow> string \<Rightarrow> bool" where
  "any_word_in words text = list_ex (\<lambda>word. sublist word text) words"

definition followup_words :: "string list" where
  "followup_words =
     [''followup'', ''follow-up'', ''follow up'', ''checkup'', ''check up'', ''routine check'']"

definition physical_words :: "string list" where
  "physical_words = [''physical'', ''exam'', ''annual'', ''complete exam'']"

definition specialist_words :: "string list" where
  "specialist_words =
     [''specialist'', ''cardiologist'', ''dermatologist'', ''neurologist'', ''serious'',
      ''chronic'']"

definition recommend_appointment_type :: "string \<Rightarrow> string" where
  "recommend_appointment_type reason =
     (let reason_lower = str_lower reason
      in if any_word_in followup_words reason_lower then ''followup''
         else if any_word_in physical_words reason_lower then ''physical_exam''
         else if any_word_in specialist_words reason_lower then ''specialist_consultation''
         else ''general_consultation'')"


section \<open>Sessions and bookings\<close>

datatype ConversationPhase =
    GREETING
  | SELECTING_TYPE
  | UNDERSTANDING
  | SHOWING_SLOTS
  | COLLECTING_INFO
  | CONFIRMING
  | COMPLETE

record Message =
  role :: string
  content :: string
  timestamp :: "string option"

record ChatRequest =
  request_session_id :: string
  message :: string

record PatientInfo =
  name :: json
  email :: json
  phone :: json

record BookingDetails =
  appointment_type :: json
  preferred_date :: json
  preferred_time :: json
  reason :: json
  selected_slot :: json

record ConversationState =
  session_id :: string
  phase :: ConversationPhase
  messages :: "Message list"
  patient_info :: PatientInfo
  booking_details :: BookingDetails
  context_dict :: "(string \<times> json) list"
  collected_info :: "string \<rightharpoonup> bool"

text \<open>The two tables of the process: \<^verbatim>\<open>sessions\<close> and \<^verbatim>\<open>bookings\<close>.\<close>

record Store =
  sessions :: "string \<rightharpoonup> ConversationState"
  bookings :: "string \<rightharpoonup> json"

definition APPOINTMENT_TYPES :: json where
  "APPOINTMENT_TYPES = JDict
     [(''general_consultation'', JDict
         [(''name'', JStr ''General Consultation''), (''duration'', JInt 30),
          (''description'', JStr ''Standard doctor visit for general health concerns'')]),
      (''specialist_consultation'', JDict
         [(''name'', JStr ''Specialist Consultation''), (''duration'', JInt 60),
          (''description'', JStr ''Extended consultation with a specialist'')]),
      (''physical_exam'', JDict
         [(''name'', JStr ''Physical Exam''), (''duration'', JInt 45),
          (''description'', JStr ''Comprehensive physical examination'')]),
      (''followup'', JDict
         [(''name'', JStr ''Follow-up''), (''duration'', JInt 15),
          (''description'', JStr ''Quick follow-up for previous visit'')])]"

text \<open>\<^verbatim>\<open>PatientInfo()\<close>, \<^verbatim>\<open>BookingDetails()\<close> and the flags of a fresh session.\<close>

definition empty_patient_info :: PatientInfo where
  "empty_patient_info = \<lparr>name = JNull, email = JNull, phone = JNull\<rparr>"

definition empty_booking_details :: BookingDetails where
  "empty_booking_details =
     \<lparr>appointment_type = JNull, preferred_date = JNull, preferred_time = JNull,
      reason = JNull, selected_slot = JNull\<rparr>"

definition initial_collected_info :: "string \<rightharpoonup> bool" where
  "initial_collected_info =
     [''appointment_type'' \<mapsto> False, ''reason'' \<mapsto> False, ''name'' \<mapsto> False,
      ''email'' \<mapsto> False, ''phone'' \<mapsto> False, ''date'' \<mapsto> False, ''time'' \<mapsto> False]"

definition new_session :: "string \<Rightarrow> ConversationState" where
  "new_session sid =
     \<lparr>session_id = sid, phase = GREETING, messages = [],
      patient_info = empty_patient_info, booking_details = empty_booking_details,
      context_dict = [], collected_info = initial_collected_info\<rparr>"

text \<open>
  What one call of the chat endpoint takes from outside: the answers of the two oracles
  (\<^verbatim>\<open>analyze_intent\<close> returns the decoded JSON or its fallback, \<^verbatim>\<open>generate_response\<close> a
  text or its fallback; neither raises), the clock, the two UUIDs of a booking, and the
  text that an f-string gives for a value.
\<close>

record Env =
  intent_analysis :: json
  oracle_reply :: string
  now_user :: string
  today :: string
  uuid_booking :: string
  uuid_code :: string
  now_created :: string
  now_assistant :: string
  py_str :: "json \<Rightarrow> string"

section \<open>The chat endpoint\<close>

text \<open>The restart request (lines 427 to 442).\<close>

definition restart_words :: "string list" where
  "restart_words = [''new'', ''another'', ''book'', ''schedule'']"

definition restart_check :: "string \<Rightarrow> ConversationState \<Rightarrow> ConversationState" where
  "restart_check msg state =
     (if phase state = COMPLETE then
        if any_word_in restart_words (str_lower msg) then
          state\<lparr>phase := GREETING, patient_info := empty_patient_info,
                booking_details := empty_booking_details,
                collected_info := initial_collected_info\<rparr>
        else state
      else state)"

text \<open>The receiver of \<^verbatim>\<open>.get\<close> must be a dictionary.\<close>

fun as_dict :: "json \<Rightarrow> py_error + (string \<times> json) list" where
  "as_dict (JDict kvs) = Inr kvs"
| "as_dict v = Inl AttributeError"

text \<open>The extracted fields are merged one by one (lines 458 to 487).\<close>

definition merge_reason :: "(string \<times> json) list \<Rightarrow> ConversationState \<Rightarrow> ConversationState" where
  "merge_reason extracted state =
     (if truthy (get0 extracted ''reason'') \<and> \<not> truthy (reason (booking_details state)) then
        state\<lparr>booking_details := (booking_details state)\<lparr>reason := get0 extracted ''reason''\<rparr>,
              collected_info := (collected_info state)(''reason'' \<mapsto> True),
              phase := SELECTING_TYPE\<rparr>
      else state)"

definition merge_appointment_type ::
  "(string \<times> json) list \<Rightarrow> ConversationState \<Rightarrow> ConversationState" where
  "merge_appointment_type extracted state =
     (if truthy (get0 extracted ''appointment_type'') then
        state\<lparr>booking_details :=
                (booking_details state)\<lparr>appointment_type := get0 extracted ''appointment_type''\<rparr>,
              collected_info := (collected_info state)(''appointment_type'' \<mapsto> True),
              phase := UNDERSTANDING\<rparr>
      else state)"

definition merge_name :: "(string \<times> json) list \<Rightarrow> ConversationState \<Rightarrow> ConversationState" where
  "merge_name extracted state =
     (if truthy (get0 extracted ''name'') \<and> \<not> truthy (name (patient_info state)) then
        state\<lparr>patient_info := (patient_info state)\<lparr>name := get0 extracted ''name''\<rparr>,
              collected_info := (collected_info state)(''name'' \<mapsto> True)\<rparr>
      else state)"

definition merge_phone :: "(string \<times> json) list \<Rightarrow> ConversationState \<Rightarrow> ConversationState" where
  "merge_phone extracted state =
     (if truthy (get0 extracted ''phone'') \<and> \<not> truthy (phone (patient_info state)) then
        state\<lparr>patient_info := (patient_info state)\<lparr>phone := get0 extracted ''phone''\<rparr>,
              collected_info := (collected_info state)(''phone'' \<mapsto> True)\<rparr>
      else state)"

definition merge_email :: "(string \<times> json) list \<Rightarrow> ConversationState \<Rightarrow> ConversationState" where
  "merge_email extracted state =
     (if truthy (get0 extracted ''email'') \<and> \<not> truthy (email (patient_info state)) then
        state\<lparr>patient_info := (patient_info state)\<lparr>email := get0 extracted ''email''\<rparr>,
              collected_info := (collected_info state)(''email'' \<mapsto> True)\<rparr>
      else state)"

definition merge_date :: "(string \<times> json) list \<Rightarrow> ConversationState \<Rightarrow> ConversationState" where
  "merge_date extracted state =
     (if truthy (get0 extracted ''date'') then
        state\<lparr>booking_details :=
                (booking_details state)\<lparr>preferred_date := get0 extracted ''date''\<rparr>,
              collected_info := (collected_info state)(''date'' \<mapsto> True)\<rparr>
      else state)"

definition merge_time_preference ::
  "(string \<times> json) list \<Rightarrow> ConversationState \<Rightarrow> ConversationState" where
  "merge_time_preference extracted state =
     (if truthy (get0 extracted ''time_preference'') then
        state\<lparr>booking_details :=
                (booking_details state)\<lparr>preferred_time := get0 extracted ''time_preference''\<rparr>,
              collected_info := (collected_info state)(''time'' \<mapsto> True),
              phase := SHOWING_SLOTS\<rparr>
      else state)"

definition merge_extracted :: "(string \<times> json) list \<Rightarrow> ConversationState \<Rightarrow> ConversationState" where
  "merge_extracted extracted state =
     merge_time_preference extracted
       (merge_date extracted
         (merge_email extracted
           (merge_phone extracted
             (merge_name extracted
               (merge_appointment_type extracted
                 (merge_reason extracted state))))))"

text \<open>The search for the slot of the schedule that an extracted slot names (lines 500 to 504).\<close>

fun match_loop :: "json \<Rightarrow> json list \<Rightarrow> py_error + json" where
  "match_loop slot [] = Inr slot"
| "match_loop slot (avail_slot # rest) =
     bind_r (py_getitem avail_slot (JStr ''date'')) (\<lambda>avail_date.
     bind_r (dict_get slot (JStr ''date'') JNull) (\<lambda>slot_date.
     if py_eq avail_date slot_date then
       bind_r (py_getitem avail_slot (JStr ''start_time'')) (\<lambda>avail_start.
       bind_r (dict_get slot (JStr ''start_time'') JNull) (\<lambda>slot_start.
       if py_eq avail_start slot_start then Inr avail_slot else match_loop slot rest))
     else match_loop slot rest))"

text \<open>A slot given by date and time (lines 490 to 506).\<close>

definition select_specific_slot ::
  "json \<Rightarrow> json \<Rightarrow> ConversationState \<Rightarrow> py_error + ConversationState" where
  "select_specific_slot SCHEDULE_DATA slot state =
     bind_r (str_in ''end_time'' slot) (\<lambda>has_end_time.
     bind_r (if \<not> has_end_time \<and> truthy (appointment_type (booking_details state)) then
               bind_r (dict_get slot (JStr ''date'') JNull) (\<lambda>slot_date.
               match_loop slot
                 (get_available_slots SCHEDULE_DATA (appointment_type (booking_details state))
                    slot_date JNull))
             else Inr slot) (\<lambda>slot.
     Inr (state\<lparr>booking_details := (booking_details state)\<lparr>selected_slot := slot\<rparr>,
               phase := COLLECTING_INFO\<rparr>)))"

text \<open>A slot given by its number (lines 509 to 522): a \<^verbatim>\<open>ValueError\<close> or an
  \<^verbatim>\<open>IndexError\<close> is caught, any other exception leaves the endpoint.\<close>

definition select_slot_by_number ::
  "json \<Rightarrow> json \<Rightarrow> ConversationState \<Rightarrow> py_error + ConversationState" where
  "select_slot_by_number SCHEDULE_DATA slot_num state =
     (let available = get_available_slots SCHEDULE_DATA
                        (appointment_type (booking_details state))
                        (preferred_date (booking_details state))
                        (preferred_time (booking_details state))
      in case py_int slot_num of
           Inr n \<Rightarrow>
             (let slot_idx = n - 1
              in if 0 \<le> slot_idx \<and> slot_idx < int (length available) then
                   Inr (state\<lparr>booking_details :=
                                (booking_details state)\<lparr>selected_slot := available ! nat slot_idx\<rparr>,
                              phase := COLLECTING_INFO\<rparr>)
                 else Inr state)
         | Inl ValueError \<Rightarrow> Inr state
         | Inl IndexError \<Rightarrow> Inr state
         | Inl e \<Rightarrow> Inl e)"

definition handle_slot ::
  "json \<Rightarrow> (string \<times> json) list \<Rightarrow> ConversationState \<Rightarrow> py_error + ConversationState" where
  "handle_slot SCHEDULE_DATA extracted state =
     (if truthy (get0 extracted ''specific_slot'') then
        select_specific_slot SCHEDULE_DATA (get0 extracted ''specific_slot'') state
      else if truthy (get0 extracted ''slot_selection'') \<and>
              truthy (appointment_type (booking_details state)) then
        select_slot_by_number SCHEDULE_DATA (get0 extracted ''slot_selection'') state
      else Inr state)"

text \<open>The value of \<^verbatim>\<open>can_book\<close> (lines 537 to 544): the first operand of the chain of
  \<^verbatim>\<open>and\<close> that is not true, or the last one.\<close>

definition can_book :: "(string \<times> json) list \<Rightarrow> ConversationState \<Rightarrow> py_error + json" where
  "can_book analysis state =
     (if \<not> truthy (get0 analysis ''ready_to_book'') then Inr (get0 analysis ''ready_to_book'')
      else if \<not> truthy (name (patient_info state)) then Inr (name (patient_info state))
      else if \<not> truthy (email (patient_info state)) then Inr (email (patient_info state))
      else if \<not> truthy (phone (patient_info state)) then Inr (phone (patient_info state))
      else if \<not> truthy (selected_slot (booking_details state))
        then Inr (selected_slot (booking_details state))
      else map_sum id JBool (str_in ''end_time'' (selected_slot (booking_details state))))"

text \<open>The dictionary \<^verbatim>\<open>booking_data\<close> (lines 548 to 563).\<close>

definition booking_data_of :: "ConversationState \<Rightarrow> py_error + (string \<times> json) list" where
  "booking_data_of state =
     bind_r (dict_get APPOINTMENT_TYPES (appointment_type (booking_details state)) (JDict []))
       (\<lambda>apt_type_info.
     bind_r (dict_get apt_type_info (JStr ''name'') JNull) (\<lambda>type_name.
     bind_r (dict_get apt_type_info (JStr ''duration'') JNull) (\<lambda>duration.
     bind_r (py_getitem (selected_slot (booking_details state)) (JStr ''date'')) (\<lambda>slot_date.
     bind_r (py_getitem (selected_slot (booking_details state)) (JStr ''start_time''))
       (\<lambda>slot_start.
     bind_r (py_getitem (selected_slot (booking_details state)) (JStr ''end_time''))
       (\<lambda>slot_end.
     Inr [(''appointment_type'', appointment_type (booking_details state)),
          (''appointment_type_name'', type_name),
          (''duration'', duration),
          (''date'', slot_date),
          (''start_time'', slot_start),
          (''end_time'', slot_end),
          (''patient'', JDict [(''name'', name (patient_info state)),
                               (''email'', email (patient_info state)),
                               (''phone'', phone (patient_info state))]),
          (''reason'', py_or (reason (booking_details state))
                         (JStr ''General consultation''))]))))))"

text \<open>\<^verbatim>\<open>AgentTools.book_appointment\<close>: the booking and the ledger with the booking stored
  under its identifier.\<close>

definition book_appointment ::
  "Env \<Rightarrow> (string \<times> json) list \<Rightarrow> (string \<rightharpoonup> json) \<Rightarrow> json \<times> (string \<rightharpoonup> json)" where
  "book_appointment env booking_data ledger =
     (let booking_id = ''APPT-'' @ today env @ ''-'' @ str_upper (take 8 (uuid_booking env));
          confirmation_code = str_upper (take 6 (uuid_code env));
          booking = JDict ([(''booking_id'', JStr booking_id),
                            (''confirmation_code'', JStr confirmation_code),
                            (''status'', JStr ''confirmed''),
                            (''created_at'', JStr (now_created env))] @ booking_data)
      in (booking, ledger(booking_id \<mapsto> booking)))"

text \<open>The confirmation sentence (lines 569 to 574).\<close>

definition confirmation_text :: "Env \<Rightarrow> ConversationState \<Rightarrow> json \<Rightarrow> py_error + string" where
  "confirmation_text env state booking_result =
     bind_r (py_getitem (selected_slot (booking_details state)) (JStr ''day'')) (\<lambda>slot_day.
     bind_r (py_getitem (selected_slot (booking_details state)) (JStr ''date'')) (\<lambda>slot_date.
     bind_r (py_getitem (selected_slot (booking_details state)) (JStr ''start_time''))
       (\<lambda>slot_start.
     bind_r (py_getitem booking_result (JStr ''confirmation_code'')) (\<lambda>code.
     Inr (''Perfect! All set. Your appointment is confirmed for '' @ py_str env slot_day @
          '', '' @ py_str env slot_date @ '' at '' @ py_str env slot_start @
          ''. You'' @ [CHR 0x27] @ ''ll receive a confirmation email at '' @
          py_str env (email (patient_info state)) @
          '' with all the details. Your confirmation code is '' @ py_str env code @ ''.'')))))"

text \<open>The value of a member of \<^verbatim>\<open>ConversationPhase\<close>.\<close>

fun phase_value :: "ConversationPhase \<Rightarrow> string" where
  "phase_value GREETING = ''greeting''"
| "phase_value SELECTING_TYPE = ''selecting_appointment_type''"
| "phase_value UNDERSTANDING = ''understanding_needs''"
| "phase_value SHOWING_SLOTS = ''showing_slots''"
| "phase_value COLLECTING_INFO = ''collecting_info''"
| "phase_value CONFIRMING = ''confirming''"
| "phase_value COMPLETE = ''complete''"

text \<open>The response envelope (lines 587 to 597).\<close>

definition envelope ::
  "string \<Rightarrow> ConversationState \<Rightarrow> (string \<times> json) list \<Rightarrow> json list \<Rightarrow> json \<Rightarrow> json \<Rightarrow> json"
  where
  "envelope response_text state analysis available_slots can_book_value booking_result =
     JDict
       [(''response'', JStr response_text),
        (''phase'', JStr (phase_value (phase state))),
        (''intent'', get0 analysis ''intent''),
        (''available_slots'', JList (if \<not> truthy can_book_value then available_slots else [])),
        (''booking'', booking_result),
        (''patient_info'', JDict [(''name'', name (patient_info state)),
                                  (''email'', email (patient_info state)),
                                  (''phone'', phone (patient_info state))]),
        (''booking_details'',
           JDict [(''appointment_type'', appointment_type (booking_details state)),
                  (''preferred_date'', preferred_date (booking_details state)),
                  (''preferred_time'', preferred_time (booking_details state)),
                  (''reason'', reason (booking_details state)),
                  (''selected_slot'', selected_slot (booking_details state))]),
        (''next_action'', get0 analysis ''next_action''),
        (''appointment_types'',
           if py_eq (get0 analysis ''next_action'') (JStr ''show_appointment_types'')
           then APPOINTMENT_TYPES else JNull)]"

definition add_message :: "string \<Rightarrow> string \<Rightarrow> string \<Rightarrow> ConversationState \<Rightarrow> ConversationState"
  where
  "add_message r c t state =
     state\<lparr>messages := messages state @ [\<lparr>role = r, content = c, timestamp = Some t\<rparr>]\<rparr>"

text \<open>
  The readiness check and what follows it (lines 536 to 597): the result of the call, the
  session and the ledger. An exception leaves both tables as they are at that moment.
\<close>

definition respond ::
  "Env \<Rightarrow> (string \<times> json) list \<Rightarrow> json list \<Rightarrow> ConversationState \<Rightarrow> (string \<rightharpoonup> json) \<Rightarrow>
   (py_error + json) \<times> ConversationState \<times> (string \<rightharpoonup> json)" where
  "respond env analysis available_slots state ledger =
     (case can_book analysis state of
        Inl e \<Rightarrow> (Inl e, state, ledger)
      | Inr can_book_value \<Rightarrow>
          if truthy can_book_value then
            (case booking_data_of state of
               Inl e \<Rightarrow> (Inl e, state, ledger)
             | Inr booking_data \<Rightarrow>
                 (case book_appointment env booking_data ledger of
                    (booking_result, ledger') \<Rightarrow>
                      (let state' = state\<lparr>phase := COMPLETE\<rparr>
                       in case confirmation_text env state' booking_result of
                            Inl e \<Rightarrow> (Inl e, state', ledger')
                          | Inr response_text \<Rightarrow>
                              (Inr (envelope response_text state' analysis available_slots
                                      can_book_value booking_result),
                               add_message ''assistant'' response_text (now_assistant env) state',
                               ledger'))))
          else
            (Inr (envelope (oracle_reply env) state analysis available_slots can_book_value
                    JNull),
             add_message ''assistant'' (oracle_reply env) (now_assistant env) state,
             ledger))"

text \<open>The slots to show (lines 525 to 533).\<close>

definition slots_to_show :: "json \<Rightarrow> (string \<times> json) list \<Rightarrow> ConversationState \<Rightarrow> json list" where
  "slots_to_show SCHEDULE_DATA analysis state =
     (if py_eq (get0 analysis ''next_action'') (JStr ''show_slots'') \<and>
         truthy (appointment_type (booking_details state)) then
        get_available_slots SCHEDULE_DATA
          (appointment_type (booking_details state))
          (preferred_date (booking_details state))
          (preferred_time (booking_details state))
      else [])"

text \<open>The session of a request as the oracle sees it: found or created, reset on a restart
  request, with the message of the user appended (lines 405 to 450).\<close>

definition opened_session :: "Env \<Rightarrow> ChatRequest \<Rightarrow> Store \<Rightarrow> ConversationState" where
  "opened_session env request store =
     add_message ''user'' (message request) (now_user env)
       (restart_check (message request)
          (case sessions store (request_session_id request) of
             None \<Rightarrow> new_session (request_session_id request)
           | Some state \<Rightarrow> state))"

definition save_session :: "Store \<Rightarrow> string \<Rightarrow> ConversationState \<Rightarrow> Store" where
  "save_session store sid state = store\<lparr>sessions := (sessions store)(sid \<mapsto> state)\<rparr>"

text \<open>\<^verbatim>\<open>POST /api/chat\<close>: the response envelope or the exception that leaves the handler,
  and the two tables afterwards.\<close>

definition chat :: "Env \<Rightarrow> json \<Rightarrow> ChatRequest \<Rightarrow> Store \<Rightarrow> (py_error + json) \<times> Store" where
  "chat env SCHEDULE_DATA request store =
     (let sid = request_session_id request;
          state = opened_session env request store
      in case as_dict (intent_analysis env) of
           Inl e \<Rightarrow> (Inl e, save_session store sid state)
         | Inr analysis \<Rightarrow>
             (case as_dict (case map_of analysis ''extracted'' of
                              Some v \<Rightarrow> v | None \<Rightarrow> JDict []) of
                Inl e \<Rightarrow> (Inl e, save_session store sid state)
              | Inr extracted \<Rightarrow>
                  (let merged = merge_extracted extracted state
                   in case handle_slot SCHEDULE_DATA extracted merged of
                        Inl e \<Rightarrow> (Inl e, save_session store sid merged)
                      | Inr selected \<Rightarrow>
                          (case respond env analysis
                                  (slots_to_show SCHEDULE_DATA analysis selected)
                                  selected (bookings store) of
                             (result, final, ledger) \<Rightarrow>
                               (result,
                                (save_session store sid final)\<lparr>bookings := ledger\<rparr>)))))"

section \<open>The reset endpoint\<close>

text \<open>\<^verbatim>\<open>POST /api/reset-session\<close>: the status of the answer and the tables afterwards.\<close>

definition reset_session :: "string \<Rightarrow> Store \<Rightarrow> string \<times> Store" where
  "reset_session sid store =
     (case sessions store sid of
        Some state \<Rightarrow>
          (''reset'',
           save_session store sid
             (state\<lparr>phase := GREETING, patient_info := empty_patient_info,
                    booking_details := empty_booking_details,
                    collected_info := initial_collected_info\<rparr>))
      | None \<Rightarrow> (''not_found'', store))"


section \<open>Sequences of calls\<close>

text \<open>The store after a sequence of calls of the chat endpoint, each with its own
  environment.\<close>

fun run_chats :: "json \<Rightarrow> (Env \<times> ChatRequest) list \<Rightarrow> Store \<Rightarrow> Store" where
  "run_chats SCHEDULE_DATA [] store = store"
| "run_chats SCHEDULE_DATA ((env, request) # calls) store =
     run_chats SCHEDULE_DATA calls (snd (chat env SCHEDULE_DATA request store))"

text \<open>A request restarts the booking cycle of a session when it is for that session, the
  session is complete and the message has a restart word (the test of lines 428 and 429).\<close>

definition restarts :: "string \<Rightarrow> ChatRequest \<Rightarrow> Store \<Rightarrow> bool" where
  "restarts sid request store =
     (request_session_id request = sid \<and>
      (case sessions store sid of
         None \<Rightarrow> False
       | Some state \<Rightarrow>
           phase state = COMPLETE \<and> any_word_in restart_words (str_lower (message request))))"

text \<open>A sequence of calls stays within one booking cycle of a session when none of them
  restarts it.\<close>

fun one_cycle :: "json \<Rightarrow> string \<Rightarrow> (Env \<times> ChatRequest) list \<Rightarrow> Store \<Rightarrow> bool" where
  "one_cycle SCHEDULE_DATA sid [] store = True"
| "one_cycle SCHEDULE_DATA sid ((env, request) # calls) store =
     (\<not> restarts sid request store \<and>
      one_cycle SCHEDULE_DATA sid calls (snd (chat env SCHEDULE_DATA request store)))"

section \<open>Notions used in the statements\<close>

text \<open>An available slot matches an extracted slot when date and start time are equal (the
  test of lines 501 and 502).\<close>

definition slot_matches :: "(string \<times> json) list \<Rightarrow> json \<Rightarrow> bool" where
  "slot_matches slot avail_slot =
     (case avail_slot of
        JDict avail \<Rightarrow>
          py_eq (get0 avail ''date'') (get0 slot ''date'') \<and>
          py_eq (get0 avail ''start_time'') (get0 slot ''start_time'')
      | _ \<Rightarrow> False)"

text \<open>The shape of a slot that the slot finder builds: the five keys of lines 147 to 153.\<close>

definition is_slot_info :: "json \<Rightarrow> bool" where
  "is_slot_info v =
     (case v of
        JDict [(k1, v1), (k2, v2), (k3, v3), (k4, v4), (k5, v5)] \<Rightarrow>
          k1 = ''day'' \<and> k2 = ''date'' \<and> k3 = ''start_time'' \<and> k4 = ''end_time'' \<and>
          k5 = ''duration''
      | _ \<Rightarrow> False)"

text \<open>Lower case for the letters A to Z only, written with the character codes: the way
  the statements say "in any letter case" of a word made of the letters a to z.\<close>

abbreviation lower_ascii :: "string \<Rightarrow> string" where
  "lower_ascii s \<equiv>
     map (\<lambda>c. if (of_char c :: nat) \<in> {65..90} then char_of (of_char c + 32 :: nat) else c) s"

section \<open>Example data\<close>

text \<open>A schedule with one appointment type and one day, an environment of a call, and a
  session that lacks only the telephone number and the slot.\<close>

definition example_schedule :: json where
  "example_schedule = JDict
     [(''followup'', JDict
        [(''duration_minutes'', JInt 15),
         (''schedule'', JDict
            [(''monday'', JDict
               [(''date'', JStr ''2025-01-13''),
                (''slots'', JList
                   [JDict [(''start_time'', JStr ''09:00''), (''end_time'', JStr ''09:15''),
                           (''available'', JBool True)],
                    JDict [(''start_time'', JStr ''13:00''), (''end_time'', JStr ''13:15''),
                           (''available'', JBool True)],
                    JDict [(''start_time'', JStr ''17:30''), (''end_time'', JStr ''17:45''),
                           (''available'', JBool False)],
                    JDict [(''start_time'', JStr ''18:00''), (''end_time'', JStr ''18:15''),
                           (''available'', JBool True)]])])])])]"

definition example_morning_slot :: json where
  "example_morning_slot = JDict
     [(''day'', JStr ''monday''), (''date'', JStr ''2025-01-13''), (''start_time'', JStr ''09:00''),
      (''end_time'', JStr ''09:15''), (''duration'', JInt 15)]"

definition example_afternoon_slot :: json where
  "example_afternoon_slot = JDict
     [(''day'', JStr ''monday''), (''date'', JStr ''2025-01-13''), (''start_time'', JStr ''13:00''),
      (''end_time'', JStr ''13:15''), (''duration'', JInt 15)]"

definition example_evening_slot :: json where
  "example_evening_slot = JDict
     [(''day'', JStr ''monday''), (''date'', JStr ''2025-01-13''), (''start_time'', JStr ''18:00''),
      (''end_time'', JStr ''18:15''), (''duration'', JInt 15)]"

text \<open>In the examples an f-string prints a string as it is; no other value is printed.\<close>

fun example_str :: "json \<Rightarrow> string" where
  "example_str (JStr s) = s"
| "example_str v = []"

definition example_env :: "json \<Rightarrow> Env" where
  "example_env analysis =
     \<lparr>intent_analysis = analysis, oracle_reply = ''How can I help?'',
      now_user = ''2025-01-10T09:00:00'', today = ''20250110'',
      uuid_booking = ''3f2b8c1e-58d1-4c0a-9b7e-0a1b2c3d4e5f'',
      uuid_code = ''9d41c07a-1f2e-4a3b-8c4d-5e6f7a8b9c0d'',
      now_created = ''2025-01-10T09:00:01'', now_assistant = ''2025-01-10T09:00:02'',
      py_str = example_str\<rparr>"

definition example_session :: ConversationState where
  "example_session =
     \<lparr>session_id = ''s1'', phase = COLLECTING_INFO, messages = [],
      patient_info = \<lparr>name = JStr ''Ann'', email = JStr ''ann@example.org'', phone = JNull\<rparr>,
      booking_details =
        \<lparr>appointment_type = JStr ''followup'', preferred_date = JStr ''2025-01-13'',
         preferred_time = JStr ''afternoon'', reason = JStr ''checkup'', selected_slot = JNull\<rparr>,
      context_dict = [], collected_info = initial_collected_info\<rparr>"

definition example_store :: Store where
  "example_store = \<lparr>sessions = [''s1'' \<mapsto> example_session], bookings = Map.empty\<rparr>"

definition example_request :: "string \<Rightarrow> ChatRequest" where
  "example_request msg = \<lparr>request_session_id = ''s1'', message = msg\<rparr>"

text \<open>The oracle reads a telephone number and the choice of the first slot, and signals
  readiness.\<close>

definition booking_items :: "(string \<times> json) list" where
  "booking_items =
     [(''intent'', JStr ''provide_info''),
      (''extracted'', JDict [(''phone'', JStr ''555-0100''), (''slot_selection'', JStr ''1'')]),
      (''next_action'', JStr ''show_slots''),
      (''ready_to_book'', JBool True)]"

definition booking_analysis :: json where
  "booking_analysis = JDict booking_items"

text \<open>The oracle reads a telephone number and a slot whose end time is the empty string.\<close>

definition empty_end_analysis :: json where
  "empty_end_analysis = JDict
     [(''intent'', JStr ''confirm''),
      (''extracted'', JDict
         [(''phone'', JStr ''555-0100''),
          (''specific_slot'', JDict
             [(''day'', JStr ''monday''), (''date'', JStr ''2025-01-13''),
              (''start_time'', JStr ''13:00''), (''end_time'', JStr '''')])]),
      (''next_action'', JStr ''confirm_booking''),
      (''ready_to_book'', JBool True)]"

text \<open>Two messages in which the oracle reads another name and another address.\<close>

definition rename_analysis :: "string \<Rightarrow> json" where
  "rename_analysis n = JDict
     [(''intent'', JStr ''provide_info''),
      (''extracted'', JDict [(''name'', JStr n), (''email'', JStr ''other@example.org'')]),
      (''next_action'', JStr ''collect_phone''),
      (''ready_to_book'', JBool False)]"

definition rename_calls :: "(Env \<times> ChatRequest) list" where
  "rename_calls =
     [(example_env (rename_analysis ''Bob''), example_request ''call me Bob''),
      (example_env (rename_analysis ''Carol''), example_request ''no, book it for Carol'')]"

text \<open>The oracle reads another type, date and time of day, and another name.\<close>

definition overwrite_extracted :: "(string \<times> json) list" where
  "overwrite_extracted =
     [(''appointment_type'', JStr ''physical_exam''), (''date'', JStr ''2025-01-20''),
      (''time_preference'', JStr ''morning''), (''name'', JStr ''Bob'')]"

definition overwrite_items :: "(string \<times> json) list" where
  "overwrite_items =
     [(''intent'', JStr ''select_time''),
      (''extracted'', JDict overwrite_extracted),
      (''next_action'', JStr ''show_slots''),
      (''ready_to_book'', JBool False)]"

text \<open>The oracle gives the empty string for the date.\<close>

definition empty_date_extracted :: "(string \<times> json) list" where
  "empty_date_extracted = [(''date'', JStr '''')]"

definition empty_date_analysis :: json where
  "empty_date_analysis = JDict
     [(''intent'', JStr ''select_time''),
      (''extracted'', JDict empty_date_extracted),
      (''next_action'', JStr ''ask_time_preference''),
      (''ready_to_book'', JBool False)]"



text \<open>A store with one session in its initial state.\<close>

definition fresh_store :: Store where
  "fresh_store = \<lparr>sessions = [''s1'' \<mapsto> new_session ''s1''], bookings = Map.empty\<rparr>"

text \<open>The oracle reads a slot by date and start time, without end time.\<close>

definition specific_slot :: "(string \<times> json) list" where
  "specific_slot = [(''date'', JStr ''2025-01-13''), (''start_time'', JStr ''13:00'')]"

definition specific_extracted :: "(string \<times> json) list" where
  "specific_extracted = [(''specific_slot'', JDict specific_slot)]"

definition specific_items :: "(string \<times> json) list" where
  "specific_items =
     [(''intent'', JStr ''select_time''),
      (''extracted'', JDict specific_extracted),
      (''next_action'', JStr ''collect_phone''),
      (''ready_to_book'', JBool False)]"

text \<open>The oracle gives a list for the number of the slot.\<close>

definition list_selection_analysis :: json where
  "list_selection_analysis = JDict
     [(''intent'', JStr ''select_slot''),
      (''extracted'', JDict [(''slot_selection'', JList [JInt 1, JInt 2])]),
      (''next_action'', JStr ''collect_name''),
      (''ready_to_book'', JBool False)]"

section \<open>Properties of the slot finder\<close>

lemma bind_r_Inr_iff: "bind_r m f = Inr y \<longleftrightarrow> (\<exists>x. m = Inr x \<and> f x = Inr y)"
  by (cases m) auto

text \<open>What holds of every appended slot holds of every slot of the result.\<close>

lemma slots_loop_all:
  assumes "slots_loop visit slots acc = Inr res"
    and "\<And>slot info. visit slot = Inr (Some info) \<Longrightarrow> P info"
    and "\<forall>x \<in> set acc. P x"
  shows "\<forall>x \<in> set res. P x"
  using assms(1,3)
proof (induction slots arbitrary: acc)
  case Nil
  then show ?case by simp
next
  case (Cons slot rest)
  from Cons.prems(1) obtain r where r: "visit slot = Inr r"
    and rest: "slots_loop visit rest (case r of None \<Rightarrow> acc | Some i \<Rightarrow> acc @ [i]) = Inr res"
    by (auto simp: bind_r_Inr_iff)
  have "\<forall>x \<in> set (case r of None \<Rightarrow> acc | Some i \<Rightarrow> acc @ [i]). P x"
    using Cons.prems(2) r assms(2) by (cases r) auto
  with Cons.IH[OF rest] show ?case by blast
qed

lemma visit_day_all:
  assumes "visit_day SD t date pref day dd acc = Inr res"
    and "\<And>slot info. visit_slot SD t pref day dd slot = Inr (Some info) \<Longrightarrow> P info"
    and "\<forall>x \<in> set acc. P x"
  shows "\<forall>x \<in> set res. P x"
proof -
  from assms(1) consider "res = acc"
    | slot_list where "slots_loop (visit_slot SD t pref day dd) slot_list acc = Inr res"
    unfolding visit_day_def
    by (auto simp: bind_r_Inr_iff split: if_splits)
  then show ?thesis
  proof cases
    case 1
    with assms(3) show ?thesis by simp
  next
    case 2
    show ?thesis
      by (rule slots_loop_all[OF 2 _ assms(3)]) (rule assms(2))
  qed
qed

lemma days_loop_all:
  assumes "days_loop SD t date pref days acc = Inr res"
    and "\<And>day dd slot info. visit_slot SD t pref day dd slot = Inr (Some info) \<Longrightarrow> P info"
    and "\<forall>x \<in> set acc. P x"
  shows "\<forall>x \<in> set res. P x"
  using assms(1,3)
proof (induction days arbitrary: acc)
  case Nil
  then show ?case by simp
next
  case (Cons a days)
  obtain day dd where a: "a = (day, dd)" by (cases a)
  from Cons.prems(1) a obtain acc' where
    d: "visit_day SD t date pref day dd acc = Inr acc'" and
    r: "days_loop SD t date pref days acc' = Inr res"
    by (auto simp: bind_r_Inr_iff)
  have "\<forall>x \<in> set acc'. P x"
    by (rule visit_day_all[OF d _ Cons.prems(2)]) (rule assms(2))
  from Cons.IH[OF r this] show ?case .
qed

lemma get_available_slots_all:
  assumes "slot \<in> set (get_available_slots SD t date pref)"
    and "\<And>day dd slot info. visit_slot SD t pref day dd slot = Inr (Some info) \<Longrightarrow> P info"
  shows "P slot"
proof -
  from assms(1) obtain res where res: "find_slots SD t date pref = Inr res"
    and slot: "slot \<in> set (take 10 res)"
    by (cases "find_slots SD t date pref") (auto simp: get_available_slots_def)
  from res obtain days where days: "days_loop SD t date pref days [] = Inr res"
    by (auto simp: find_slots_def bind_r_Inr_iff)
  have "\<forall>x \<in> set res. P x"
    by (rule days_loop_all[OF days]) (erule assms(2), simp)
  with slot show ?thesis by (meson in_set_takeD)
qed


subsection \<open>Letter case\<close>

text \<open>On a word of code points below 128, the lower case of the code and the lower case of
  the letters A to Z agree.\<close>

lemma lower_agree:
  assumes "(of_char (lower_char c) :: nat) < 128 \<or>
           (of_char (if (of_char c :: nat) \<in> {65..90} then char_of (of_char c + 32 :: nat) else c) :: nat) < 128"
  shows "lower_char c = (if (of_char c :: nat) \<in> {65..90} then char_of (of_char c + 32 :: nat) else c)"
  using assms unfolding lower_char_def Let_def
  by (auto simp: of_char_of [where ?'a = nat] split: if_splits)

lemma lower_ascii_str_lower:
  assumes "lower_ascii p = w" "\<forall>d \<in> set w. (of_char d :: nat) < 128"
  shows "str_lower p = w"
proof -
  have "map lower_char p = lower_ascii p"
  proof (rule map_cong[OF refl])
    fix c assume c: "c \<in> set p"
    then have "(if (of_char c :: nat) \<in> {65..90} then char_of (of_char c + 32 :: nat) else c)
                 \<in> set (lower_ascii p)"
      by auto
    with assms have "(of_char (if (of_char c :: nat) \<in> {65..90} then char_of (of_char c + 32 :: nat) else c) :: nat) < 128"
      by blast
    then show "lower_char c = (if (of_char c :: nat) \<in> {65..90} then char_of (of_char c + 32 :: nat) else c)"
      by (intro lower_agree disjI2)
  qed
  with assms(1) show ?thesis by (simp add: str_lower_def)
qed

lemma sublist_map_agree:
  assumes "sublist w (map f r)" "\<And>c. f c \<in> set w \<Longrightarrow> g c = f c"
  shows "sublist w (map g r)"
proof -
  from assms(1) obtain ps ss where "map f r = ps @ w @ ss"
    by (auto simp add: sublist_def)
  then obtain a vs where r1: "r = a @ vs" and vs: "map f vs = w @ ss"
    by (metis map_eq_append_conv)
  from vs obtain b c where r2: "vs = b @ c" and b: "map f b = w"
    by (metis map_eq_append_conv)
  from r1 r2 have r: "r = a @ b @ c" by simp
  have "map g b = map f b"
    by (rule map_cong[OF refl]) (rule assms(2), simp add: b[symmetric])
  with b have "map g r = map g a @ w @ map g c"
    by (simp add: r)
  then show ?thesis by (auto simp add: sublist_def)
qed

lemma sublist_str_lower:
  assumes "\<forall>d \<in> set w. (of_char d :: nat) < 128"
  shows "sublist w (str_lower r) = sublist w (lower_ascii r)"
proof
  assume "sublist w (str_lower r)"
  then have "sublist w (map lower_char r)" by (simp add: str_lower_def)
  then show "sublist w (lower_ascii r)"
  proof (rule sublist_map_agree)
    fix c assume "lower_char c \<in> set w"
    with assms have "(of_char (lower_char c) :: nat) < 128" by blast
    then show "(if (of_char c :: nat) \<in> {65..90} then char_of (of_char c + 32 :: nat) else c) = lower_char c"
      by (intro lower_agree[symmetric] disjI1)
  qed
next
  assume "sublist w (lower_ascii r)"
  then have "sublist w (map lower_char r)"
  proof (rule sublist_map_agree)
    fix c
    assume "(if (of_char c :: nat) \<in> {65..90} then char_of (of_char c + 32 :: nat) else c) \<in> set w"
    with assms have "(of_char (if (of_char c :: nat) \<in> {65..90} then char_of (of_char c + 32 :: nat) else c) :: nat) < 128"
      by blast
    then show "lower_char c = (if (of_char c :: nat) \<in> {65..90} then char_of (of_char c + 32 :: nat) else c)"
      by (intro lower_agree disjI2)
  qed
  then show "sublist w (str_lower r)" by (simp add: str_lower_def)
qed

subsection \<open>The time of day\<close>

text \<open>The hour that the filter tests is the number that the text before the first colon
  of the start time denotes, and the start time of the returned slot is that of the
  schedule.\<close>

lemma split_on_head: "\<exists>ws. split_on sep s = takeWhile (\<lambda>c. c \<noteq> sep) s # ws"
  by (induction s) auto

lemma start_hour_text:
  assumes "start_hour slot = Inr h"
  shows "\<exists>st. py_getitem slot (JStr ''start_time'') = Inr (JStr st) \<and>
              int_of_str (takeWhile (\<lambda>c. c \<noteq> CHR '':'') st) = Some h"
proof -
  from assms obtain v parts p where
    v: "py_getitem slot (JStr ''start_time'') = Inr v" and
    parts: "py_split v CHR '':'' = Inr parts" and
    p: "seq_index parts 0 = Inr p" and
    h: "py_int (JStr p) = Inr h"
    unfolding start_hour_def bind_r_Inr_iff by blast
  from parts obtain st where st: "v = JStr st" "parts = split_on CHR '':'' st"
    by (cases v) auto
  from split_on_head[of "CHR '':''" st] st(2) p have "p = takeWhile (\<lambda>c. c \<noteq> CHR '':'') st"
    by (auto simp add: seq_index_def)
  moreover from h have "int_of_str p = Some h"
    by (auto split: option.splits)
  ultimately show ?thesis using v st(1) by simp
qed

lemma visit_slot_filtered:
  assumes "visit_slot SD t pref day dd slot = Inr (Some info)" "truthy pref"
  shows "\<exists>kvs st h. info = JDict kvs \<and> map_of kvs ''start_time'' = Some (JStr st) \<and>
           int_of_str (takeWhile (\<lambda>c. c \<noteq> CHR '':'') st) = Some h \<and>
           time_filter_skips pref h = Inr False"
proof -
  from assms obtain d v et du h skip where
    v: "dict_get slot (JStr ''start_time'') JNull = Inr v" and
    h: "start_hour slot = Inr h" and
    skip: "time_filter_skips pref h = Inr skip" and
    res: "(if skip then None else Some (JDict [(''day'', JStr day), (''date'', d),
            (''start_time'', v), (''end_time'', et), (''duration'', du)])) = Some info"
    unfolding visit_slot_def
    by (auto simp: bind_r_Inr_iff Let_def split: if_splits)
  from res have ns: "\<not> skip" and info: "info = JDict [(''day'', JStr day), (''date'', d),
            (''start_time'', v), (''end_time'', et), (''duration'', du)]"
    by (auto split: if_splits)
  from start_hour_text[OF h] obtain st where
    g: "py_getitem slot (JStr ''start_time'') = Inr (JStr st)" and
    i: "int_of_str (takeWhile (\<lambda>c. c \<noteq> CHR '':'') st) = Some h"
    by blast
  from g v have veq: "v = JStr st"
    by (cases slot) (auto split: option.splits)
  have kv: "map_of [(''day'', JStr day), (''date'', d), (''start_time'', JStr st),
                    (''end_time'', et), (''duration'', du)] ''start_time'' = Some (JStr st)"
    by simp
  from skip ns have f: "time_filter_skips pref h = Inr False"
    by simp
  from info veq have ieq: "info = JDict [(''day'', JStr day), (''date'', d),
            (''start_time'', JStr st), (''end_time'', et), (''duration'', du)]"
    by simp
  show ?thesis
    by (rule exI[of _ "[(''day'', JStr day), (''date'', d), (''start_time'', JStr st),
                        (''end_time'', et), (''duration'', du)]"],
        rule exI[of _ st], rule exI[of _ h])
      (intro conjI ieq kv i f)
qed

lemma digit_code:
  assumes "d \<in> set ''0123456789''"
  shows "48 \<le> (of_char d :: nat) \<and> (of_char d :: nat) \<le> 57"
  using assms by auto

lemma int_of_str_two_digits:
  assumes "d1 \<in> set ''0123456789''" "d2 \<in> set ''0123456789''"
  shows "int_of_str [d1, d2] = Some (10 * (int (of_char d1) - 48) + (int (of_char d2) - 48))"
proof -
  note c1 = digit_code[OF assms(1)] and c2 = digit_code[OF assms(2)]
  have sp: "\<not> is_space d1" "\<not> is_space d2"
    using c1 c2 by (simp_all add: is_space_def Let_def)
  have dg: "is_digit d1" "is_digit d2"
    using c1 c2 by (simp_all add: is_digit_def Let_def)
  have sg: "d1 \<noteq> CHR ''-''" "d1 \<noteq> CHR ''+''"
    using c1 by auto
  have st: "strip [d1, d2] = [d1, d2]"
    using sp by (simp add: strip_def)
  have "parse_digits False 0 [d1, d2] = Some (digit_val d1 * 10 + digit_val d2)"
    using dg by simp
  with st sg have "int_of_str [d1, d2] = Some (int (digit_val d1 * 10 + digit_val d2))"
    by (simp add: int_of_str_def)
  also have "int (digit_val d1 * 10 + digit_val d2) =
               10 * (int (of_char d1) - 48) + (int (of_char d2) - 48)"
    using c1 c2 by (simp add: digit_val_def of_nat_diff)
  finally show ?thesis .
qed

lemma hour_of_two_digits:
  assumes "int_of_str (takeWhile (\<lambda>c. c \<noteq> CHR '':'') st) = Some h"
    "st = d1 # d2 # CHR '':'' # rest" "d1 \<in> set ''0123456789''" "d2 \<in> set ''0123456789''"
  shows "h = 10 * (int (of_char d1) - 48) + (int (of_char d2) - 48)"
proof -
  from assms(3,4) have "d1 \<noteq> CHR '':''" "d2 \<noteq> CHR '':''" by auto
  with assms(2) have "takeWhile (\<lambda>c. c \<noteq> CHR '':'') st = [d1, d2]" by simp
  with assms(1) int_of_str_two_digits[OF assms(3,4)] show ?thesis by simp
qed

lemma time_words_lower:
  "lower_ascii p = ''morning'' \<Longrightarrow> str_lower p = ''morning''"
  "lower_ascii p = ''am'' \<Longrightarrow> str_lower p = ''am''"
  "lower_ascii p = ''afternoon'' \<Longrightarrow> str_lower p = ''afternoon''"
  "lower_ascii p = ''pm'' \<Longrightarrow> str_lower p = ''pm''"
  "lower_ascii p = ''evening'' \<Longrightarrow> str_lower p = ''evening''"
  by (erule lower_ascii_str_lower, simp)+

text \<open>
  Claim C2. Every slot that the slot finder returns under a time-of-day filter carries a
  start time, a string, and the text before its first colon denotes a number, the start
  hour. The hour is below 12 when the filter is "morning" or "am", from 12 to 16 when it
  is "afternoon" or "pm", and 17 or more when it is "evening", the filter taken in any
  letter case. For a start time of the form HH:MM the start hour is the number that the
  two digits HH denote.
\<close>

theorem get_available_slots_time_band:
  assumes "slot \<in> set (get_available_slots SD t date (JStr p))"
    and "lower_ascii p \<in> {''morning'', ''am'', ''afternoon'', ''pm'', ''evening''}"
  shows "\<exists>kvs st hour.
     slot = JDict kvs \<and> map_of kvs ''start_time'' = Some (JStr st) \<and>
     int_of_str (takeWhile (\<lambda>c. c \<noteq> CHR '':'') st) = Some hour \<and>
     (lower_ascii p = ''morning'' \<or> lower_ascii p = ''am'' \<longrightarrow> hour < 12) \<and>
     (lower_ascii p = ''afternoon'' \<or> lower_ascii p = ''pm'' \<longrightarrow> 12 \<le> hour \<and> hour < 17) \<and>
     (lower_ascii p = ''evening'' \<longrightarrow> 17 \<le> hour) \<and>
     (\<forall>d1 d2 rest.
        st = d1 # d2 # CHR '':'' # rest \<and> d1 \<in> set ''0123456789'' \<and> d2 \<in> set ''0123456789'' \<longrightarrow>
        hour = 10 * (int (of_char d1) - 48) + (int (of_char d2) - 48))"
proof -
  from assms(2) have "lower_ascii p \<noteq> []" by auto
  then have "p \<noteq> []" by auto
  then have tr: "truthy (JStr p)" by simp
  have "\<exists>kvs st h. slot = JDict kvs \<and> map_of kvs ''start_time'' = Some (JStr st) \<and>
           int_of_str (takeWhile (\<lambda>c. c \<noteq> CHR '':'') st) = Some h \<and>
           time_filter_skips (JStr p) h = Inr False"
    by (rule get_available_slots_all[OF assms(1)]) (rule visit_slot_filtered[OF _ tr])
  then obtain kvs st h where
    k: "slot = JDict kvs" "map_of kvs ''start_time'' = Some (JStr st)" and
    i: "int_of_str (takeWhile (\<lambda>c. c \<noteq> CHR '':'') st) = Some h" and
    f: "time_filter_skips (JStr p) h = Inr False"
    by blast
  have m: "h < 12" if "lower_ascii p = ''morning'' \<or> lower_ascii p = ''am''"
  proof -
    from that have "str_lower p = ''morning'' \<or> str_lower p = ''am''"
    proof (elim disjE)
      assume "lower_ascii p = ''morning''"
      then show ?thesis by (intro disjI1 time_words_lower(1))
    next
      assume "lower_ascii p = ''am''"
      then show ?thesis by (intro disjI2 time_words_lower(2))
    qed
    with f show ?thesis
      unfolding time_filter_skips_def by (auto split: if_splits)
  qed
  have a: "12 \<le> h \<and> h < 17" if "lower_ascii p = ''afternoon'' \<or> lower_ascii p = ''pm''"
  proof -
    from that have "str_lower p = ''afternoon'' \<or> str_lower p = ''pm''"
    proof (elim disjE)
      assume "lower_ascii p = ''afternoon''"
      then show ?thesis by (intro disjI1 time_words_lower(3))
    next
      assume "lower_ascii p = ''pm''"
      then show ?thesis by (intro disjI2 time_words_lower(4))
    qed
    with f show ?thesis
      unfolding time_filter_skips_def by (auto split: if_splits)
  qed
  have e: "17 \<le> h" if "lower_ascii p = ''evening''"
  proof -
    from that have "str_lower p = ''evening''"
      by (rule time_words_lower(5))
    with f show ?thesis
      unfolding time_filter_skips_def by (auto split: if_splits)
  qed
  have d: "\<forall>d1 d2 rest.
        st = d1 # d2 # CHR '':'' # rest \<and> d1 \<in> set ''0123456789'' \<and> d2 \<in> set ''0123456789'' \<longrightarrow>
        h = 10 * (int (of_char d1) - 48) + (int (of_char d2) - 48)"
    using hour_of_two_digits[OF i] by blast
  from k i m a e d show ?thesis by blast
qed

theorem get_available_slots_time_band_witness:
  "example_morning_slot \<in> set (get_available_slots example_schedule (JStr ''followup'') JNull
                                  (JStr ''Morning'')) \<and>
   lower_ascii ''Morning'' \<in> {''morning'', ''am'', ''afternoon'', ''pm'', ''evening''} \<and>
   get_available_slots example_schedule (JStr ''followup'') JNull (JStr ''Morning'') =
     [example_morning_slot] \<and>
   get_available_slots example_schedule (JStr ''followup'') JNull (JStr ''PM'') =
     [example_afternoon_slot] \<and>
   get_available_slots example_schedule (JStr ''followup'') JNull (JStr ''evening'') =
     [example_evening_slot] \<and>
   (\<exists>kvs hour.
      example_morning_slot = JDict kvs \<and> map_of kvs ''start_time'' = Some (JStr ''09:00'') \<and>
      int_of_str (takeWhile (\<lambda>c. c \<noteq> CHR '':'') ''09:00'') = Some hour \<and>
      hour < 12 \<and> hour = 9)"
proof -
  have m: "example_morning_slot \<in> set (get_available_slots example_schedule (JStr ''followup'')
             JNull (JStr ''Morning''))"
    by code_simp
  have lm: "lower_ascii ''Morning'' = ''morning''"
    by code_simp
  then have l: "lower_ascii ''Morning'' \<in> {''morning'', ''am'', ''afternoon'', ''pm'', ''evening''}"
    by simp
  have r1: "get_available_slots example_schedule (JStr ''followup'') JNull (JStr ''Morning'') =
     [example_morning_slot]"
    by code_simp
  have r2: "get_available_slots example_schedule (JStr ''followup'') JNull (JStr ''PM'') =
     [example_afternoon_slot]"
    by code_simp
  have r3: "get_available_slots example_schedule (JStr ''followup'') JNull (JStr ''evening'') =
     [example_evening_slot]"
    by code_simp
  from get_available_slots_time_band[OF m l] lm obtain kvs st hour where
    k: "example_morning_slot = JDict kvs" "map_of kvs ''start_time'' = Some (JStr st)" and
    i: "int_of_str (takeWhile (\<lambda>c. c \<noteq> CHR '':'') st) = Some hour" and
    b: "hour < 12" and
    d: "\<forall>d1 d2 rest.
        st = d1 # d2 # CHR '':'' # rest \<and> d1 \<in> set ''0123456789'' \<and> d2 \<in> set ''0123456789'' \<longrightarrow>
        hour = 10 * (int (of_char d1) - 48) + (int (of_char d2) - 48)"
    by auto
  from k have st: "st = ''09:00''"
    by (auto simp add: example_morning_slot_def)
  from d have "''09:00'' = CHR ''0'' # CHR ''9'' # CHR '':'' # ''00'' \<and>
      CHR ''0'' \<in> set ''0123456789'' \<and> CHR ''9'' \<in> set ''0123456789'' \<longrightarrow>
      hour = 10 * (int (of_char CHR ''0'') - 48) + (int (of_char CHR ''9'') - 48)"
    unfolding st by blast
  then have h: "hour = 9" by simp
  from k i b h m l r1 r2 r3 show ?thesis
    unfolding st by blast
qed

section \<open>Properties of the type recommender\<close>

lemma followup_words_explicit:
  "any_word_in followup_words (str_lower txt) \<longleftrightarrow>
     sublist ''followup'' (lower_ascii txt) \<or> sublist ''follow-up'' (lower_ascii txt) \<or>
     sublist ''follow up'' (lower_ascii txt) \<or> sublist ''checkup'' (lower_ascii txt) \<or>
     sublist ''check up'' (lower_ascii txt) \<or> sublist ''routine check'' (lower_ascii txt)"
  unfolding any_word_in_def followup_words_def list_ex_Cons_iff list_ex_Nil_iff
  by (subst sublist_str_lower, simp)+ simp

lemma physical_words_explicit:
  "any_word_in physical_words (str_lower txt) \<longleftrightarrow>
     sublist ''physical'' (lower_ascii txt) \<or> sublist ''exam'' (lower_ascii txt) \<or>
     sublist ''annual'' (lower_ascii txt) \<or> sublist ''complete exam'' (lower_ascii txt)"
  unfolding any_word_in_def physical_words_def list_ex_Cons_iff list_ex_Nil_iff
  by (subst sublist_str_lower, simp)+ simp

lemma specialist_words_explicit:
  "any_word_in specialist_words (str_lower txt) \<longleftrightarrow>
     sublist ''specialist'' (lower_ascii txt) \<or> sublist ''cardiologist'' (lower_ascii txt) \<or>
     sublist ''dermatologist'' (lower_ascii txt) \<or> sublist ''neurologist'' (lower_ascii txt) \<or>
     sublist ''serious'' (lower_ascii txt) \<or> sublist ''chronic'' (lower_ascii txt)"
  unfolding any_word_in_def specialist_words_def list_ex_Cons_iff list_ex_Nil_iff
  by (subst sublist_str_lower, simp)+ simp

lemma recommend_explicit:
  "recommend_appointment_type txt =
     (if sublist ''followup'' (lower_ascii txt) \<or> sublist ''follow-up'' (lower_ascii txt) \<or>
         sublist ''follow up'' (lower_ascii txt) \<or> sublist ''checkup'' (lower_ascii txt) \<or>
         sublist ''check up'' (lower_ascii txt) \<or> sublist ''routine check'' (lower_ascii txt)
      then ''followup''
      else if sublist ''physical'' (lower_ascii txt) \<or> sublist ''exam'' (lower_ascii txt) \<or>
              sublist ''annual'' (lower_ascii txt) \<or> sublist ''complete exam'' (lower_ascii txt)
      then ''physical_exam''
      else if sublist ''specialist'' (lower_ascii txt) \<or>
              sublist ''cardiologist'' (lower_ascii txt) \<or>
              sublist ''dermatologist'' (lower_ascii txt) \<or>
              sublist ''neurologist'' (lower_ascii txt) \<or>
              sublist ''serious'' (lower_ascii txt) \<or> sublist ''chronic'' (lower_ascii txt)
      then ''specialist_consultation''
      else ''general_consultation'')"
  unfolding recommend_appointment_type_def Let_def
    followup_words_explicit physical_words_explicit specialist_words_explicit
  by (rule refl)

text \<open>
  Claim C3. For every text, the empty one included, the type recommender returns one of
  the four type codes: "followup" when the text, in lower case, contains one of the six
  follow-up words; otherwise "physical_exam" when it contains one of the four physical
  words; otherwise "specialist_consultation" when it contains one of the six specialist
  words; otherwise "general_consultation". Two texts that differ in letter case only
  get the same code.
\<close>

theorem recommend_appointment_type_total:
  "recommend_appointment_type txt =
     (if sublist ''followup'' (lower_ascii txt) \<or> sublist ''follow-up'' (lower_ascii txt) \<or>
         sublist ''follow up'' (lower_ascii txt) \<or> sublist ''checkup'' (lower_ascii txt) \<or>
         sublist ''check up'' (lower_ascii txt) \<or> sublist ''routine check'' (lower_ascii txt)
      then ''followup''
      else if sublist ''physical'' (lower_ascii txt) \<or> sublist ''exam'' (lower_ascii txt) \<or>
              sublist ''annual'' (lower_ascii txt) \<or> sublist ''complete exam'' (lower_ascii txt)
      then ''physical_exam''
      else if sublist ''specialist'' (lower_ascii txt) \<or>
              sublist ''cardiologist'' (lower_ascii txt) \<or>
              sublist ''dermatologist'' (lower_ascii txt) \<or>
              sublist ''neurologist'' (lower_ascii txt) \<or>
              sublist ''serious'' (lower_ascii txt) \<or> sublist ''chronic'' (lower_ascii txt)
      then ''specialist_consultation''
      else ''general_consultation'') \<and>
   recommend_appointment_type txt \<in>
     {''followup'', ''physical_exam'', ''specialist_consultation'', ''general_consultation''} \<and>
   recommend_appointment_type [] = ''general_consultation'' \<and>
   (lower_ascii txt = lower_ascii txt' \<longrightarrow>
      recommend_appointment_type txt = recommend_appointment_type txt')"
proof (intro conjI impI)
  show "recommend_appointment_type txt \<in>
     {''followup'', ''physical_exam'', ''specialist_consultation'', ''general_consultation''}"
    by (simp add: recommend_appointment_type_def Let_def)
  show "recommend_appointment_type [] = ''general_consultation''"
    by (subst recommend_explicit) simp
  show "recommend_appointment_type txt = recommend_appointment_type txt'"
    if "lower_ascii txt = lower_ascii txt'"
    by (simp only: recommend_explicit that)
qed (rule recommend_explicit)

theorem recommend_appointment_type_total_witness:
  "recommend_appointment_type ''Follow-Up exam'' = ''followup'' \<and>
   recommend_appointment_type ''ANNUAL by a specialist'' = ''physical_exam'' \<and>
   recommend_appointment_type ''Chronic pain'' = ''specialist_consultation'' \<and>
   recommend_appointment_type ''bad headache'' = ''general_consultation'' \<and>
   lower_ascii ''CHRONIC pain'' = lower_ascii ''Chronic pain'' \<and>
   recommend_appointment_type ''CHRONIC pain'' =
     recommend_appointment_type ''Chronic pain''"
proof -
  note r = recommend_appointment_type_total[THEN conjunct1]
  have 1: "recommend_appointment_type ''Follow-Up exam'' = ''followup''"
    by (subst r) code_simp
  have 2: "recommend_appointment_type ''ANNUAL by a specialist'' = ''physical_exam''"
    by (subst r) code_simp
  have 3: "recommend_appointment_type ''Chronic pain'' = ''specialist_consultation''"
    by (subst r) code_simp
  have 4: "recommend_appointment_type ''bad headache'' = ''general_consultation''"
    by (subst r) code_simp
  have 5: "lower_ascii ''CHRONIC pain'' = lower_ascii ''Chronic pain''"
    by code_simp
  from recommend_appointment_type_total[of "''CHRONIC pain''" "''Chronic pain''"] 5
  have 6: "recommend_appointment_type ''CHRONIC pain'' =
     recommend_appointment_type ''Chronic pain''"
    by blast
  from 1 2 3 4 5 6 show ?thesis by blast
qed
section \<open>Properties of the chat endpoint\<close>

subsection \<open>The stages of a call\<close>

lemma merge_reason_fields:
  "session_id (merge_reason ex s) = session_id s"
  "messages (merge_reason ex s) = messages s"
  "context_dict (merge_reason ex s) = context_dict s"
  "patient_info (merge_reason ex s) = patient_info s"
  "appointment_type (booking_details (merge_reason ex s)) = appointment_type (booking_details s)"
  "preferred_date (booking_details (merge_reason ex s)) = preferred_date (booking_details s)"
  "preferred_time (booking_details (merge_reason ex s)) = preferred_time (booking_details s)"
  "selected_slot (booking_details (merge_reason ex s)) = selected_slot (booking_details s)"
  "reason (booking_details (merge_reason ex s)) =
     (if truthy (get0 ex ''reason'') \<and> \<not> truthy (reason (booking_details s))
      then get0 ex ''reason'' else reason (booking_details s))"
  by (simp_all add: merge_reason_def)

lemma merge_appointment_type_fields:
  "session_id (merge_appointment_type ex s) = session_id s"
  "messages (merge_appointment_type ex s) = messages s"
  "context_dict (merge_appointment_type ex s) = context_dict s"
  "patient_info (merge_appointment_type ex s) = patient_info s"
  "appointment_type (booking_details (merge_appointment_type ex s)) =
     (if truthy (get0 ex ''appointment_type'')
      then get0 ex ''appointment_type'' else appointment_type (booking_details s))"
  "preferred_date (booking_details (merge_appointment_type ex s)) = preferred_date (booking_details s)"
  "preferred_time (booking_details (merge_appointment_type ex s)) = preferred_time (booking_details s)"
  "selected_slot (booking_details (merge_appointment_type ex s)) = selected_slot (booking_details s)"
  "reason (booking_details (merge_appointment_type ex s)) = reason (booking_details s)"
  by (simp_all add: merge_appointment_type_def)

lemma merge_name_fields:
  "session_id (merge_name ex s) = session_id s"
  "messages (merge_name ex s) = messages s"
  "context_dict (merge_name ex s) = context_dict s"
  "booking_details (merge_name ex s) = booking_details s"
  "name (patient_info (merge_name ex s)) =
     (if truthy (get0 ex ''name'') \<and> \<not> truthy (name (patient_info s))
      then get0 ex ''name'' else name (patient_info s))"
  "email (patient_info (merge_name ex s)) = email (patient_info s)"
  "phone (patient_info (merge_name ex s)) = phone (patient_info s)"
  by (simp_all add: merge_name_def)

lemma merge_phone_fields:
  "session_id (merge_phone ex s) = session_id s"
  "messages (merge_phone ex s) = messages s"
  "context_dict (merge_phone ex s) = context_dict s"
  "booking_details (merge_phone ex s) = booking_details s"
  "phone (patient_info (merge_phone ex s)) =
     (if truthy (get0 ex ''phone'') \<and> \<not> truthy (phone (patient_info s))
      then get0 ex ''phone'' else phone (patient_info s))"
  "email (patient_info (merge_phone ex s)) = email (patient_info s)"
  "name (patient_info (merge_phone ex s)) = name (patient_info s)"
  by (simp_all add: merge_phone_def)

lemma merge_email_fields:
  "session_id (merge_email ex s) = session_id s"
  "messages (merge_email ex s) = messages s"
  "context_dict (merge_email ex s) = context_dict s"
  "booking_details (merge_email ex s) = booking_details s"
  "email (patient_info (merge_email ex s)) =
     (if truthy (get0 ex ''email'') \<and> \<not> truthy (email (patient_info s))
      then get0 ex ''email'' else email (patient_info s))"
  "phone (patient_info (merge_email ex s)) = phone (patient_info s)"
  "name (patient_info (merge_email ex s)) = name (patient_info s)"
  by (simp_all add: merge_email_def)

lemma merge_date_fields:
  "session_id (merge_date ex s) = session_id s"
  "messages (merge_date ex s) = messages s"
  "context_dict (merge_date ex s) = context_dict s"
  "patient_info (merge_date ex s) = patient_info s"
  "appointment_type (booking_details (merge_date ex s)) = appointment_type (booking_details s)"
  "preferred_date (booking_details (merge_date ex s)) =
     (if truthy (get0 ex ''date'') then get0 ex ''date'' else preferred_date (booking_details s))"
  "preferred_time (booking_details (merge_date ex s)) = preferred_time (booking_details s)"
  "selected_slot (booking_details (merge_date ex s)) = selected_slot (booking_details s)"
  "reason (booking_details (merge_date ex s)) = reason (booking_details s)"
  by (simp_all add: merge_date_def)

lemma merge_time_preference_fields:
  "session_id (merge_time_preference ex s) = session_id s"
  "messages (merge_time_preference ex s) = messages s"
  "context_dict (merge_time_preference ex s) = context_dict s"
  "patient_info (merge_time_preference ex s) = patient_info s"
  "appointment_type (booking_details (merge_time_preference ex s)) =
     appointment_type (booking_details s)"
  "preferred_date (booking_details (merge_time_preference ex s)) = preferred_date (booking_details s)"
  "preferred_time (booking_details (merge_time_preference ex s)) =
     (if truthy (get0 ex ''time_preference'')
      then get0 ex ''time_preference'' else preferred_time (booking_details s))"
  "selected_slot (booking_details (merge_time_preference ex s)) = selected_slot (booking_details s)"
  "reason (booking_details (merge_time_preference ex s)) = reason (booking_details s)"
  by (simp_all add: merge_time_preference_def)

lemmas merge_fields = merge_reason_fields merge_appointment_type_fields merge_name_fields
  merge_phone_fields merge_email_fields merge_date_fields merge_time_preference_fields

lemma merge_extracted_frame:
  "session_id (merge_extracted ex s) = session_id s"
  "messages (merge_extracted ex s) = messages s"
  "context_dict (merge_extracted ex s) = context_dict s"
  "selected_slot (booking_details (merge_extracted ex s)) = selected_slot (booking_details s)"
  by (simp_all add: merge_extracted_def merge_fields)

lemma merge_extracted_guarded:
  "name (patient_info (merge_extracted ex s)) =
     (if truthy (get0 ex ''name'') \<and> \<not> truthy (name (patient_info s))
      then get0 ex ''name'' else name (patient_info s))"
  "email (patient_info (merge_extracted ex s)) =
     (if truthy (get0 ex ''email'') \<and> \<not> truthy (email (patient_info s))
      then get0 ex ''email'' else email (patient_info s))"
  "phone (patient_info (merge_extracted ex s)) =
     (if truthy (get0 ex ''phone'') \<and> \<not> truthy (phone (patient_info s))
      then get0 ex ''phone'' else phone (patient_info s))"
  "reason (booking_details (merge_extracted ex s)) =
     (if truthy (get0 ex ''reason'') \<and> \<not> truthy (reason (booking_details s))
      then get0 ex ''reason'' else reason (booking_details s))"
  by (simp_all add: merge_extracted_def merge_fields)

lemma merge_extracted_overwritten:
  "appointment_type (booking_details (merge_extracted ex s)) =
     (if truthy (get0 ex ''appointment_type'')
      then get0 ex ''appointment_type'' else appointment_type (booking_details s))"
  "preferred_date (booking_details (merge_extracted ex s)) =
     (if truthy (get0 ex ''date'') then get0 ex ''date'' else preferred_date (booking_details s))"
  "preferred_time (booking_details (merge_extracted ex s)) =
     (if truthy (get0 ex ''time_preference'')
      then get0 ex ''time_preference'' else preferred_time (booking_details s))"
  by (simp_all add: merge_extracted_def merge_fields)

lemma select_specific_slot_frame:
  assumes "select_specific_slot SD slot s = Inr s'"
  shows "\<exists>sl. s' = s\<lparr>booking_details := (booking_details s)\<lparr>selected_slot := sl\<rparr>,
                       phase := COLLECTING_INFO\<rparr>"
proof -
  from assms obtain b sl where
    "s' = s\<lparr>booking_details := (booking_details s)\<lparr>selected_slot := sl\<rparr>,
            phase := COLLECTING_INFO\<rparr>"
    unfolding select_specific_slot_def bind_r_Inr_iff by blast
  then show ?thesis by blast
qed

lemma select_slot_by_number_frame:
  assumes "select_slot_by_number SD n s = Inr s'"
  shows "s' = s \<or> (\<exists>sl. s' = s\<lparr>booking_details := (booking_details s)\<lparr>selected_slot := sl\<rparr>,
                                phase := COLLECTING_INFO\<rparr>)"
proof (cases "py_int n")
  case (Inl e)
  with assms show ?thesis
    unfolding select_slot_by_number_def Let_def by (cases e) simp_all
next
  case (Inr k)
  with assms show ?thesis
    unfolding select_slot_by_number_def Let_def
    by (simp split: if_splits) blast
qed

lemma handle_slot_cases:
  assumes "handle_slot SD ex s = Inr s'"
  shows "s' = s \<or> (\<exists>sl. s' = s\<lparr>booking_details := (booking_details s)\<lparr>selected_slot := sl\<rparr>,
                                phase := COLLECTING_INFO\<rparr>)"
proof (cases "truthy (get0 ex ''specific_slot'')")
  case True
  with assms have "select_specific_slot SD (get0 ex ''specific_slot'') s = Inr s'"
    by (simp add: handle_slot_def)
  from select_specific_slot_frame[OF this] show ?thesis by blast
next
  case False
  show ?thesis
  proof (cases "truthy (get0 ex ''slot_selection'') \<and> truthy (appointment_type (booking_details s))")
    case True
    with False assms have "select_slot_by_number SD (get0 ex ''slot_selection'') s = Inr s'"
      by (simp add: handle_slot_def)
    from select_slot_by_number_frame[OF this] show ?thesis .
  next
    case F2: False
    with False assms show ?thesis by (auto simp add: handle_slot_def)
  qed
qed

lemma handle_slot_frame:
  assumes "handle_slot SD ex s = Inr s'"
  shows "session_id s' = session_id s" "messages s' = messages s"
    "patient_info s' = patient_info s" "collected_info s' = collected_info s"
    "context_dict s' = context_dict s"
    "appointment_type (booking_details s') = appointment_type (booking_details s)"
    "preferred_date (booking_details s') = preferred_date (booking_details s)"
    "preferred_time (booking_details s') = preferred_time (booking_details s)"
    "reason (booking_details s') = reason (booking_details s)"
  using handle_slot_cases[OF assms] by auto

lemma respond_cases:
  assumes "respond env an av s l = (r, s', l')"
  obtains
    (raised) e where "r = Inl e" "s' = s" "l' = l"
  | (declined) v where "can_book an s = Inr v" "\<not> truthy v"
      "r = Inr (envelope (oracle_reply env) s an av v JNull)"
      "s' = add_message ''assistant'' (oracle_reply env) (now_assistant env) s" "l' = l"
  | (booked_raised) v bd b e where "can_book an s = Inr v" "truthy v"
      "booking_data_of s = Inr bd" "book_appointment env bd l = (b, l')"
      "r = Inl e" "s' = s\<lparr>phase := COMPLETE\<rparr>"
  | (booked) v bd b tx where "can_book an s = Inr v" "truthy v"
      "booking_data_of s = Inr bd" "book_appointment env bd l = (b, l')"
      "r = Inr (envelope tx (s\<lparr>phase := COMPLETE\<rparr>) an av v b)"
      "s' = add_message ''assistant'' tx (now_assistant env) (s\<lparr>phase := COMPLETE\<rparr>)"
proof (cases "can_book an s")
  case (Inl e)
  with assms have "r = Inl e" "s' = s" "l' = l" by (auto simp add: respond_def)
  with raised show ?thesis by blast
next
  case (Inr v)
  show ?thesis
  proof (cases "truthy v")
    case False
    with Inr assms have "r = Inr (envelope (oracle_reply env) s an av v JNull)"
      "s' = add_message ''assistant'' (oracle_reply env) (now_assistant env) s" "l' = l"
      by (auto simp add: respond_def)
    with Inr False declined show ?thesis by blast
  next
    case True
    show ?thesis
    proof (cases "booking_data_of s")
      case (Inl e)
      with Inr True assms have "r = Inl e" "s' = s" "l' = l" by (auto simp add: respond_def)
      with raised show ?thesis by blast
    next
      case bd: (Inr bd)
      obtain b l2 where b: "book_appointment env bd l = (b, l2)"
        by (cases "book_appointment env bd l")
      show ?thesis
      proof (cases "confirmation_text env (s\<lparr>phase := COMPLETE\<rparr>) b")
        case (Inl e)
        with Inr True bd b assms have "r = Inl e" "s' = s\<lparr>phase := COMPLETE\<rparr>" "l2 = l'"
          by (auto simp add: respond_def Let_def)
        with Inr True bd b booked_raised show ?thesis by blast
      next
        case tx: (Inr tx)
        with Inr True bd b assms have
          "r = Inr (envelope tx (s\<lparr>phase := COMPLETE\<rparr>) an av v b)"
          "s' = add_message ''assistant'' tx (now_assistant env) (s\<lparr>phase := COMPLETE\<rparr>)"
          "l2 = l'"
          by (auto simp add: respond_def Let_def)
        with Inr True bd b booked show ?thesis by blast
      qed
    qed
  qed
qed

lemma respond_frame:
  assumes "respond env an av s l = (r, s', l')"
  shows "session_id s' = session_id s" "prefix (messages s) (messages s')"
    "patient_info s' = patient_info s" "collected_info s' = collected_info s"
    "context_dict s' = context_dict s" "booking_details s' = booking_details s"
  using assms by (cases rule: respond_cases; simp add: add_message_def)+

lemma can_book_true:
  assumes "can_book an s = Inr v" "truthy v"
  shows "truthy (get0 an ''ready_to_book'')" "truthy (name (patient_info s))"
    "truthy (email (patient_info s))" "truthy (phone (patient_info s))"
    "truthy (selected_slot (booking_details s))"
    "str_in ''end_time'' (selected_slot (booking_details s)) = Inr True"
proof -
  have 1: "truthy (get0 an ''ready_to_book'')"
    using assms unfolding can_book_def by (auto split: if_splits)
  have 2: "truthy (name (patient_info s))"
    using assms 1 unfolding can_book_def by (auto split: if_splits)
  have 3: "truthy (email (patient_info s))"
    using assms 1 2 unfolding can_book_def by (auto split: if_splits)
  have 4: "truthy (phone (patient_info s))"
    using assms 1 2 3 unfolding can_book_def by (auto split: if_splits)
  have 5: "truthy (selected_slot (booking_details s))"
    using assms 1 2 3 4 unfolding can_book_def by (auto split: if_splits)
  from assms 1 2 3 4 5 have
    "map_sum id JBool (str_in ''end_time'' (selected_slot (booking_details s))) = Inr v"
    by (simp add: can_book_def)
  with assms(2) have 6: "str_in ''end_time'' (selected_slot (booking_details s)) = Inr True"
    by (cases "str_in ''end_time'' (selected_slot (booking_details s))") auto
  from 1 2 3 4 5 6 show
    "truthy (get0 an ''ready_to_book'')" "truthy (name (patient_info s))"
    "truthy (email (patient_info s))" "truthy (phone (patient_info s))"
    "truthy (selected_slot (booking_details s))"
    "str_in ''end_time'' (selected_slot (booking_details s)) = Inr True"
    by simp_all
qed

lemma booking_data_of_slot:
  assumes "booking_data_of s = Inr bd"
  shows "\<exists>kvs. selected_slot (booking_details s) = JDict kvs"
proof -
  from assms obtain d where
    d: "py_getitem (selected_slot (booking_details s)) (JStr ''date'') = Inr d"
    unfolding booking_data_of_def bind_r_Inr_iff by blast
  then show ?thesis
    by (cases "selected_slot (booking_details s)") auto
qed

lemma respond_ledger:
  assumes "respond env an av s l = (r, s', l')" "l' \<noteq> l"
  shows "truthy (get0 an ''ready_to_book'') \<and> truthy (name (patient_info s)) \<and>
    truthy (email (patient_info s)) \<and> truthy (phone (patient_info s)) \<and>
    (\<exists>kvs. selected_slot (booking_details s) = JDict kvs \<and> ''end_time'' \<in> fst ` set kvs)"
proof -
  from assms obtain v bd where v: "can_book an s = Inr v" "truthy v"
    and bd: "booking_data_of s = Inr bd"
    by (cases rule: respond_cases) auto
  from booking_data_of_slot[OF bd] obtain kvs where
    kvs: "selected_slot (booking_details s) = JDict kvs" by blast
  with can_book_true(6)[OF v] have "''end_time'' \<in> fst ` set kvs" by simp
  with can_book_true(1-4)[OF v] kvs show ?thesis by simp
qed

lemma chat_cases:
  assumes "chat env SD req store = (r, store')"
  obtains
    (no_analysis) e where "r = Inl e" "as_dict (intent_analysis env) = Inl e"
      "store' = save_session store (request_session_id req) (opened_session env req store)"
  | (no_extracted) an e where "r = Inl e" "as_dict (intent_analysis env) = Inr an"
      "as_dict (case map_of an ''extracted'' of Some v \<Rightarrow> v | None \<Rightarrow> JDict []) = Inl e"
      "store' = save_session store (request_session_id req) (opened_session env req store)"
  | (slot_error) an ex e where "r = Inl e" "as_dict (intent_analysis env) = Inr an"
      "as_dict (case map_of an ''extracted'' of Some v \<Rightarrow> v | None \<Rightarrow> JDict []) = Inr ex"
      "store' = save_session store (request_session_id req)
                  (merge_extracted ex (opened_session env req store))"
      "handle_slot SD ex (merge_extracted ex (opened_session env req store)) = Inl e"
  | (responded) an ex selected final ledger where
      "as_dict (intent_analysis env) = Inr an"
      "as_dict (case map_of an ''extracted'' of Some v \<Rightarrow> v | None \<Rightarrow> JDict []) = Inr ex"
      "handle_slot SD ex (merge_extracted ex (opened_session env req store)) = Inr selected"
      "respond env an (slots_to_show SD an selected) selected (bookings store) = (r, final, ledger)"
      "store' = (save_session store (request_session_id req) final)\<lparr>bookings := ledger\<rparr>"
proof (cases "as_dict (intent_analysis env)")
  case (Inl e)
  with assms have "r = Inl e"
    "store' = save_session store (request_session_id req) (opened_session env req store)"
    by (auto simp add: chat_def Let_def)
  with Inl no_analysis show ?thesis by blast
next
  case an: (Inr an)
  show ?thesis
  proof (cases "as_dict (case map_of an ''extracted'' of Some v \<Rightarrow> v | None \<Rightarrow> JDict [])")
    case (Inl e)
    with an assms have "r = Inl e"
      "store' = save_session store (request_session_id req) (opened_session env req store)"
      by (auto simp add: chat_def Let_def)
    with an Inl no_extracted show ?thesis by blast
  next
    case ex: (Inr ex)
    show ?thesis
    proof (cases "handle_slot SD ex (merge_extracted ex (opened_session env req store))")
      case (Inl e)
      with an ex assms have "r = Inl e"
        "store' = save_session store (request_session_id req)
                    (merge_extracted ex (opened_session env req store))"
        by (auto simp add: chat_def Let_def)
      with an ex Inl slot_error show ?thesis by blast
    next
      case sel: (Inr selected)
      obtain r2 final ledger where
        resp: "respond env an (slots_to_show SD an selected) selected (bookings store) =
                 (r2, final, ledger)"
        by (cases "respond env an (slots_to_show SD an selected) selected (bookings store)")
      with an ex sel assms have "r = r2"
        "store' = (save_session store (request_session_id req) final)\<lparr>bookings := ledger\<rparr>"
        by (auto simp add: chat_def Let_def)
      with an ex sel resp responded show ?thesis by blast
    qed
  qed
qed

lemma save_session_simps:
  "sessions (save_session store sid s) = (sessions store)(sid \<mapsto> s)"
  "bookings (save_session store sid s) = bookings store"
  by (simp_all add: save_session_def)

lemma chat_stored:
  assumes "chat env SD req store = (r, store')"
  obtains
    (unmerged) e where "r = Inl e" "bookings store' = bookings store"
      "sessions store' = (sessions store)(request_session_id req \<mapsto> opened_session env req store)"
      "\<not> (\<exists>an ex. as_dict (intent_analysis env) = Inr an \<and>
         as_dict (case map_of an ''extracted'' of Some v \<Rightarrow> v | None \<Rightarrow> JDict []) = Inr ex)"
  | (merged) an ex final where
      "as_dict (intent_analysis env) = Inr an"
      "as_dict (case map_of an ''extracted'' of Some v \<Rightarrow> v | None \<Rightarrow> JDict []) = Inr ex"
      "sessions store' = (sessions store)(request_session_id req \<mapsto> final)"
      "session_id final = session_id (opened_session env req store)"
      "prefix (messages (opened_session env req store)) (messages final)"
      "context_dict final = context_dict (opened_session env req store)"
      "patient_info final = patient_info (merge_extracted ex (opened_session env req store))"
      "appointment_type (booking_details final) =
         appointment_type (booking_details (merge_extracted ex (opened_session env req store)))"
      "preferred_date (booking_details final) =
         preferred_date (booking_details (merge_extracted ex (opened_session env req store)))"
      "preferred_time (booking_details final) =
         preferred_time (booking_details (merge_extracted ex (opened_session env req store)))"
      "reason (booking_details final) =
         reason (booking_details (merge_extracted ex (opened_session env req store)))"
  using assms
proof (cases rule: chat_cases)
  case (no_analysis e)
  show ?thesis
    by (rule unmerged[of e]) (simp_all add: no_analysis save_session_simps)
next
  case (no_extracted an e)
  show ?thesis
    by (rule unmerged[of e]) (simp_all add: no_extracted save_session_simps)
next
  case (slot_error an ex e)
  show ?thesis
    by (rule merged[OF slot_error(2,3)])
      (simp_all add: slot_error(4) save_session_simps merge_extracted_frame)
next
  case (responded an ex selected final ledger)
  note h = handle_slot_frame[OF responded(3)]
  note p = respond_frame[OF responded(4)]
  have pre: "prefix (messages (opened_session env req store)) (messages final)"
    using p(2) by (simp add: h merge_extracted_frame)
  show ?thesis
    by (rule merged[OF responded(1,2), of final])
      (simp_all add: responded(5) save_session_simps h p(1,3-) pre merge_extracted_frame)
qed


subsection \<open>The readiness gate\<close>

text \<open>
  Claim C1, as amended. A call of the chat endpoint changes the booking ledger only when,
  in the session as the call leaves it, the name, the e-mail address and the telephone
  number of the patient are all true values (for a string: not empty), and the selected
  slot is a dictionary with the key "end_time". The fields that the oracle extracted from
  the message of this call count. The value under "end_time" is not inspected.
\<close>

theorem chat_booking_gate:
  assumes "bookings (snd (chat env SD req store)) \<noteq> bookings store"
  shows "\<exists>state kvs.
           sessions (snd (chat env SD req store)) (request_session_id req) = Some state \<and>
           truthy (name (patient_info state)) \<and>
           truthy (email (patient_info state)) \<and>
           truthy (phone (patient_info state)) \<and>
           selected_slot (booking_details state) = JDict kvs \<and>
           ''end_time'' \<in> fst ` set kvs"
proof -
  obtain r store' where c: "chat env SD req store = (r, store')"
    by (cases "chat env SD req store")
  with assms have neq: "bookings store' \<noteq> bookings store" by simp
  from c show ?thesis
  proof (cases rule: chat_cases)
    case (no_analysis e)
    with neq show ?thesis by (simp add: save_session_simps)
  next
    case (no_extracted an e)
    with neq show ?thesis by (simp add: save_session_simps)
  next
    case (slot_error an ex e)
    with neq show ?thesis by (simp add: save_session_simps)
  next
    case (responded an ex selected final ledger)
    with neq have "ledger \<noteq> bookings store" by simp
    from respond_ledger[OF responded(4) this] respond_frame(3,6)[OF responded(4)]
    obtain kvs where "truthy (name (patient_info final))" "truthy (email (patient_info final))"
      "truthy (phone (patient_info final))" "selected_slot (booking_details final) = JDict kvs"
      "''end_time'' \<in> fst ` set kvs"
      by auto
    moreover have "sessions store' (request_session_id req) = Some final"
      by (simp add: responded(5) save_session_simps)
    ultimately show ?thesis using c by auto
  qed
qed

theorem chat_booking_gate_witness:
  "bookings (snd (chat (example_env booking_analysis) example_schedule
                    (example_request ''555-0100, the first one please'') example_store)) \<noteq>
     bookings example_store \<and>
   (\<exists>state kvs.
      sessions (snd (chat (example_env booking_analysis) example_schedule
                       (example_request ''555-0100, the first one please'') example_store))
        (request_session_id (example_request ''555-0100, the first one please'')) = Some state \<and>
      truthy (name (patient_info state)) \<and>
      truthy (email (patient_info state)) \<and>
      truthy (phone (patient_info state)) \<and>
      selected_slot (booking_details state) = JDict kvs \<and>
      ''end_time'' \<in> fst ` set kvs)"
proof -
  have "bookings (snd (chat (example_env booking_analysis) example_schedule
                    (example_request ''555-0100, the first one please'') example_store))
          ''APPT-20250110-3F2B8C1E'' \<noteq> None"
    by code_simp
  moreover have "bookings example_store ''APPT-20250110-3F2B8C1E'' = None"
    by (simp add: example_store_def)
  ultimately have n: "bookings (snd (chat (example_env booking_analysis) example_schedule
                    (example_request ''555-0100, the first one please'') example_store)) \<noteq>
     bookings example_store"
    by metis
  from chat_booking_gate[OF n] n show ?thesis by blast
qed

text \<open>
  The claim as stated asks for an end time that is not empty. A booking is stored for a
  slot whose end time is the empty string.
\<close>

theorem chat_booking_empty_end_time:
  "bookings (snd (chat (example_env empty_end_analysis) example_schedule
                    (example_request ''yes, confirm'') example_store)) \<noteq>
     bookings example_store \<and>
   map_option (selected_slot \<circ> booking_details)
     (sessions (snd (chat (example_env empty_end_analysis) example_schedule
                      (example_request ''yes, confirm'') example_store)) ''s1'') =
     Some (JDict [(''day'', JStr ''monday''), (''date'', JStr ''2025-01-13''),
                  (''start_time'', JStr ''13:00''), (''end_time'', JStr '''')])"
proof -
  have "bookings (snd (chat (example_env empty_end_analysis) example_schedule
                    (example_request ''yes, confirm'') example_store))
          ''APPT-20250110-3F2B8C1E'' \<noteq> None"
    by code_simp
  moreover have "bookings example_store ''APPT-20250110-3F2B8C1E'' = None"
    by (simp add: example_store_def)
  ultimately have "bookings (snd (chat (example_env empty_end_analysis) example_schedule
                    (example_request ''yes, confirm'') example_store)) \<noteq>
     bookings example_store"
    by metis
  moreover have "map_option (selected_slot \<circ> booking_details)
     (sessions (snd (chat (example_env empty_end_analysis) example_schedule
                      (example_request ''yes, confirm'') example_store)) ''s1'') =
     Some (JDict [(''day'', JStr ''monday''), (''date'', JStr ''2025-01-13''),
                  (''start_time'', JStr ''13:00''), (''end_time'', JStr '''')])"
    by code_simp
  ultimately show ?thesis by blast
qed


subsection \<open>The contact fields are set once\<close>

lemma add_message_fields:
  "session_id (add_message r c t s) = session_id s"
  "phase (add_message r c t s) = phase s"
  "patient_info (add_message r c t s) = patient_info s"
  "booking_details (add_message r c t s) = booking_details s"
  "context_dict (add_message r c t s) = context_dict s"
  "collected_info (add_message r c t s) = collected_info s"
  "messages (add_message r c t s) = messages s @ [\<lparr>role = r, content = c, timestamp = Some t\<rparr>]"
  by (simp_all add: add_message_def)

lemma opened_session_no_restart:
  assumes "sessions store (request_session_id req) = Some s"
    "\<not> restarts (request_session_id req) req store"
  shows "opened_session env req store = add_message ''user'' (message req) (now_user env) s"
  using assms by (auto simp add: opened_session_def restarts_def restart_check_def)

lemma chat_other_session:
  assumes "request_session_id req \<noteq> sid"
  shows "sessions (snd (chat env SD req store)) sid = sessions store sid"
proof -
  obtain r store' where c: "chat env SD req store = (r, store')"
    by (cases "chat env SD req store")
  from c have "sessions store' sid = sessions store sid"
    using assms by (cases rule: chat_stored) auto
  with c show ?thesis by simp
qed

lemma chat_patient_step:
  assumes "sessions store sid = Some state" "\<not> restarts sid req store"
  shows "\<exists>state'. sessions (snd (chat env SD req store)) sid = Some state' \<and>
           (truthy (name (patient_info state)) \<longrightarrow>
              name (patient_info state') = name (patient_info state)) \<and>
           (truthy (email (patient_info state)) \<longrightarrow>
              email (patient_info state') = email (patient_info state)) \<and>
           (truthy (phone (patient_info state)) \<longrightarrow>
              phone (patient_info state') = phone (patient_info state))"
proof (cases "request_session_id req = sid")
  case False
  from chat_other_session[OF this] assms(1) show ?thesis by simp
next
  case True
  with assms have o: "opened_session env req store =
      add_message ''user'' (message req) (now_user env) state"
    by (simp add: opened_session_no_restart)
  obtain r store' where c: "chat env SD req store = (r, store')"
    by (cases "chat env SD req store")
  from c have "\<exists>state'. sessions store' sid = Some state' \<and>
           (truthy (name (patient_info state)) \<longrightarrow>
              name (patient_info state') = name (patient_info state)) \<and>
           (truthy (email (patient_info state)) \<longrightarrow>
              email (patient_info state') = email (patient_info state)) \<and>
           (truthy (phone (patient_info state)) \<longrightarrow>
              phone (patient_info state') = phone (patient_info state))"
  proof (cases rule: chat_stored)
    case (unmerged e)
    then show ?thesis by (simp add: True o add_message_fields)
  next
    case (merged an ex final)
    then show ?thesis
      by (simp add: True o add_message_fields merge_extracted_guarded)
  qed
  with c show ?thesis by simp
qed

text \<open>
  Claim C6. Within one booking cycle of a session, that is over every sequence of chat
  calls none of which restarts the session, a contact field (name, e-mail address,
  telephone number) that holds a true value (for a string: not empty) keeps this value,
  whatever the oracle extracts in the later calls.
\<close>

theorem patient_info_set_once:
  assumes "sessions store sid = Some state" "one_cycle SD sid calls store"
  shows "\<exists>state'. sessions (run_chats SD calls store) sid = Some state' \<and>
           (truthy (name (patient_info state)) \<longrightarrow>
              name (patient_info state') = name (patient_info state)) \<and>
           (truthy (email (patient_info state)) \<longrightarrow>
              email (patient_info state') = email (patient_info state)) \<and>
           (truthy (phone (patient_info state)) \<longrightarrow>
              phone (patient_info state') = phone (patient_info state))"
  using assms
proof (induction calls arbitrary: store state)
  case Nil
  then show ?case by simp
next
  case (Cons call calls)
  obtain env req where call: "call = (env, req)" by (cases call)
  from Cons.prems(2) call have nr: "\<not> restarts sid req store"
    and rest: "one_cycle SD sid calls (snd (chat env SD req store))"
    by simp_all
  from chat_patient_step[OF Cons.prems(1) nr, of env SD] obtain state1 where
    s1: "sessions (snd (chat env SD req store)) sid = Some state1" and
    k: "truthy (name (patient_info state)) \<longrightarrow>
          name (patient_info state1) = name (patient_info state)"
       "truthy (email (patient_info state)) \<longrightarrow>
          email (patient_info state1) = email (patient_info state)"
       "truthy (phone (patient_info state)) \<longrightarrow>
          phone (patient_info state1) = phone (patient_info state)"
    by blast
  from Cons.IH[OF s1 rest] obtain state2 where
    s2: "sessions (run_chats SD calls (snd (chat env SD req store))) sid = Some state2" and
    k2: "truthy (name (patient_info state1)) \<longrightarrow>
          name (patient_info state2) = name (patient_info state1)"
       "truthy (email (patient_info state1)) \<longrightarrow>
          email (patient_info state2) = email (patient_info state1)"
       "truthy (phone (patient_info state1)) \<longrightarrow>
          phone (patient_info state2) = phone (patient_info state1)"
    by blast
  from s2 k k2 call show ?case by auto
qed

theorem patient_info_set_once_witness:
  "sessions example_store ''s1'' = Some example_session \<and>
   one_cycle example_schedule ''s1'' rename_calls example_store \<and>
   truthy (name (patient_info example_session)) \<and>
   truthy (email (patient_info example_session)) \<and>
   (\<exists>state'. sessions (run_chats example_schedule rename_calls example_store) ''s1'' = Some state' \<and>
      name (patient_info state') = name (patient_info example_session) \<and>
      email (patient_info state') = email (patient_info example_session))"
proof -
  have h1: "sessions example_store ''s1'' = Some example_session"
    by (simp add: example_store_def)
  have h2: "one_cycle example_schedule ''s1'' rename_calls example_store"
    by code_simp
  have h3: "truthy (name (patient_info example_session))"
    "truthy (email (patient_info example_session))"
    by (simp_all add: example_session_def)
  from patient_info_set_once[OF h1 h2] h1 h2 h3 show ?thesis by blast
qed

subsection \<open>Which fields a later message overwrites\<close>

text \<open>The merge, relative to the session as the oracle saw it.\<close>

lemma chat_merge_from_opened:
  assumes "as_dict (intent_analysis env) = Inr analysis"
    "as_dict (case map_of analysis ''extracted'' of Some v \<Rightarrow> v | None \<Rightarrow> JDict []) =
       Inr extracted"
  shows "\<exists>state'.
     sessions (snd (chat env SD req store)) (request_session_id req) = Some state' \<and>
     appointment_type (booking_details state') =
       (if truthy (get0 extracted ''appointment_type'') then get0 extracted ''appointment_type''
        else appointment_type (booking_details (opened_session env req store))) \<and>
     preferred_date (booking_details state') =
       (if truthy (get0 extracted ''date'') then get0 extracted ''date''
        else preferred_date (booking_details (opened_session env req store))) \<and>
     preferred_time (booking_details state') =
       (if truthy (get0 extracted ''time_preference'') then get0 extracted ''time_preference''
        else preferred_time (booking_details (opened_session env req store))) \<and>
     reason (booking_details state') =
       (if truthy (get0 extracted ''reason'') \<and>
           \<not> truthy (reason (booking_details (opened_session env req store)))
        then get0 extracted ''reason''
        else reason (booking_details (opened_session env req store))) \<and>
     name (patient_info state') =
       (if truthy (get0 extracted ''name'') \<and>
           \<not> truthy (name (patient_info (opened_session env req store)))
        then get0 extracted ''name''
        else name (patient_info (opened_session env req store))) \<and>
     email (patient_info state') =
       (if truthy (get0 extracted ''email'') \<and>
           \<not> truthy (email (patient_info (opened_session env req store)))
        then get0 extracted ''email''
        else email (patient_info (opened_session env req store))) \<and>
     phone (patient_info state') =
       (if truthy (get0 extracted ''phone'') \<and>
           \<not> truthy (phone (patient_info (opened_session env req store)))
        then get0 extracted ''phone''
        else phone (patient_info (opened_session env req store)))"
proof -
  obtain r store' where c: "chat env SD req store = (r, store')"
    by (cases "chat env SD req store")
  then have sn: "snd (chat env SD req store) = store'" by simp
  from c show ?thesis
  proof (cases rule: chat_stored)
    case (unmerged e)
    with assms show ?thesis by blast
  next
    case (merged an ex final)
    with assms have ex: "ex = extracted" by simp
    have st: "sessions store' (request_session_id req) = Some final"
      by (simp add: merged(3))
    note m = merged(7-11)[unfolded ex]
    have f1: "appointment_type (booking_details final) =
       (if truthy (get0 extracted ''appointment_type'') then get0 extracted ''appointment_type''
        else appointment_type (booking_details (opened_session env req store)))"
      unfolding m by (rule merge_extracted_overwritten)
    have f2: "preferred_date (booking_details final) =
       (if truthy (get0 extracted ''date'') then get0 extracted ''date''
        else preferred_date (booking_details (opened_session env req store)))"
      unfolding m by (rule merge_extracted_overwritten)
    have f3: "preferred_time (booking_details final) =
       (if truthy (get0 extracted ''time_preference'') then get0 extracted ''time_preference''
        else preferred_time (booking_details (opened_session env req store)))"
      unfolding m by (rule merge_extracted_overwritten)
    have f4: "reason (booking_details final) =
       (if truthy (get0 extracted ''reason'') \<and>
           \<not> truthy (reason (booking_details (opened_session env req store)))
        then get0 extracted ''reason''
        else reason (booking_details (opened_session env req store)))"
      unfolding m by (rule merge_extracted_guarded)
    have f5: "name (patient_info final) =
       (if truthy (get0 extracted ''name'') \<and>
           \<not> truthy (name (patient_info (opened_session env req store)))
        then get0 extracted ''name''
        else name (patient_info (opened_session env req store)))"
      unfolding m by (rule merge_extracted_guarded)
    have f6: "email (patient_info final) =
       (if truthy (get0 extracted ''email'') \<and>
           \<not> truthy (email (patient_info (opened_session env req store)))
        then get0 extracted ''email''
        else email (patient_info (opened_session env req store)))"
      unfolding m by (rule merge_extracted_guarded)
    have f7: "phone (patient_info final) =
       (if truthy (get0 extracted ''phone'') \<and>
           \<not> truthy (phone (patient_info (opened_session env req store)))
        then get0 extracted ''phone''
        else phone (patient_info (opened_session env req store)))"
      unfolding m by (rule merge_extracted_guarded)
    show ?thesis
      unfolding sn by (rule exI[of _ final]) (intro conjI st f1 f2 f3 f4 f5 f6 f7)
  qed
qed

text \<open>The session before the merge has the patient info and the booking details of the
  stored session, or those of a new session when there was none or the request restarted
  it.\<close>

lemma opened_session_before:
  assumes "before = (case sessions store (request_session_id req) of
                       None \<Rightarrow> new_session (request_session_id req)
                     | Some state \<Rightarrow>
                         if restarts (request_session_id req) req store
                         then new_session (session_id state) else state)"
  shows "patient_info (opened_session env req store) = patient_info before"
    "booking_details (opened_session env req store) = booking_details before"
proof -
  have "patient_info (opened_session env req store) = patient_info before \<and>
        booking_details (opened_session env req store) = booking_details before"
  proof (cases "sessions store (request_session_id req)")
    case None
    with assms show ?thesis
      by (simp add: opened_session_def add_message_fields restart_check_def new_session_def)
  next
    case (Some state)
    show ?thesis
    proof (cases "restarts (request_session_id req) req store")
      case True
      with Some assms show ?thesis
        by (simp add: opened_session_def add_message_fields restart_check_def restarts_def
            new_session_def)
    next
      case False
      with Some assms show ?thesis
        by (auto simp add: opened_session_def add_message_fields restart_check_def restarts_def)
    qed
  qed
  then show "patient_info (opened_session env req store) = patient_info before"
    "booking_details (opened_session env req store) = booking_details before"
    by simp_all
qed

text \<open>
  Claim C9, as amended. When the oracle extracts a true value (not null, not false, not
  zero, not empty) for the appointment type, the date or the time preference, the chat
  endpoint stores it in place of whatever was stored. An extracted value that is not
  true, the empty string included, leaves the value that the session had before the
  merge: the stored value, or the null value of a new session when there was no session
  or the request restarted it. The reason, the name, the e-mail address and the
  telephone number are stored only when the extracted value is true and the value the
  session had before the merge is not.
\<close>

theorem chat_merge_policy:
  assumes "as_dict (intent_analysis env) = Inr analysis"
    "as_dict (case map_of analysis ''extracted'' of Some v \<Rightarrow> v | None \<Rightarrow> JDict []) =
       Inr extracted"
  shows "\<exists>state' before.
     sessions (snd (chat env SD req store)) (request_session_id req) = Some state' \<and>
     before = (case sessions store (request_session_id req) of
                 None \<Rightarrow> new_session (request_session_id req)
               | Some state \<Rightarrow>
                   if restarts (request_session_id req) req store
                   then new_session (session_id state) else state) \<and>
     appointment_type (booking_details state') =
       (if truthy (get0 extracted ''appointment_type'') then get0 extracted ''appointment_type''
        else appointment_type (booking_details before)) \<and>
     preferred_date (booking_details state') =
       (if truthy (get0 extracted ''date'') then get0 extracted ''date''
        else preferred_date (booking_details before)) \<and>
     preferred_time (booking_details state') =
       (if truthy (get0 extracted ''time_preference'') then get0 extracted ''time_preference''
        else preferred_time (booking_details before)) \<and>
     reason (booking_details state') =
       (if truthy (get0 extracted ''reason'') \<and> \<not> truthy (reason (booking_details before))
        then get0 extracted ''reason'' else reason (booking_details before)) \<and>
     name (patient_info state') =
       (if truthy (get0 extracted ''name'') \<and> \<not> truthy (name (patient_info before))
        then get0 extracted ''name'' else name (patient_info before)) \<and>
     email (patient_info state') =
       (if truthy (get0 extracted ''email'') \<and> \<not> truthy (email (patient_info before))
        then get0 extracted ''email'' else email (patient_info before)) \<and>
     phone (patient_info state') =
       (if truthy (get0 extracted ''phone'') \<and> \<not> truthy (phone (patient_info before))
        then get0 extracted ''phone'' else phone (patient_info before))"
proof -
  define before where "before =
    (case sessions store (request_session_id req) of
       None \<Rightarrow> new_session (request_session_id req)
     | Some state \<Rightarrow>
         if restarts (request_session_id req) req store
         then new_session (session_id state) else state)"
  note o = opened_session_before[OF before_def, of env]
  from chat_merge_from_opened[OF assms, of SD req store] obtain state' where
    s: "sessions (snd (chat env SD req store)) (request_session_id req) = Some state'" and
    f: "appointment_type (booking_details state') =
       (if truthy (get0 extracted ''appointment_type'') then get0 extracted ''appointment_type''
        else appointment_type (booking_details (opened_session env req store)))"
     "preferred_date (booking_details state') =
       (if truthy (get0 extracted ''date'') then get0 extracted ''date''
        else preferred_date (booking_details (opened_session env req store)))"
     "preferred_time (booking_details state') =
       (if truthy (get0 extracted ''time_preference'') then get0 extracted ''time_preference''
        else preferred_time (booking_details (opened_session env req store)))"
     "reason (booking_details state') =
       (if truthy (get0 extracted ''reason'') \<and>
           \<not> truthy (reason (booking_details (opened_session env req store)))
        then get0 extracted ''reason''
        else reason (booking_details (opened_session env req store)))"
     "name (patient_info state') =
       (if truthy (get0 extracted ''name'') \<and>
           \<not> truthy (name (patient_info (opened_session env req store)))
        then get0 extracted ''name''
        else name (patient_info (opened_session env req store)))"
     "email (patient_info state') =
       (if truthy (get0 extracted ''email'') \<and>
           \<not> truthy (email (patient_info (opened_session env req store)))
        then get0 extracted ''email''
        else email (patient_info (opened_session env req store)))"
     "phone (patient_info state') =
       (if truthy (get0 extracted ''phone'') \<and>
           \<not> truthy (phone (patient_info (opened_session env req store)))
        then get0 extracted ''phone''
        else phone (patient_info (opened_session env req store)))"
    by blast
  note g = f[unfolded o]
  show ?thesis
    by (rule exI[of _ state'], rule exI[of _ before]) (intro conjI s before_def g)
qed

theorem chat_merge_policy_witness:
  "as_dict (intent_analysis (example_env (JDict overwrite_items))) = Inr overwrite_items \<and>
   as_dict (case map_of overwrite_items ''extracted'' of Some v \<Rightarrow> v | None \<Rightarrow> JDict []) =
     Inr overwrite_extracted \<and>
   (\<exists>state'.
      sessions (snd (chat (example_env (JDict overwrite_items)) example_schedule
                       (example_request ''rather a physical on the 20th, in the morning'')
                       example_store))
        (request_session_id
           (example_request ''rather a physical on the 20th, in the morning'')) = Some state' \<and>
      appointment_type (booking_details state') = JStr ''physical_exam'' \<and>
      preferred_date (booking_details state') = JStr ''2025-01-20'' \<and>
      preferred_time (booking_details state') = JStr ''morning'' \<and>
      reason (booking_details state') = JStr ''checkup'' \<and>
      name (patient_info state') = JStr ''Ann'')"
proof -
  have h1: "as_dict (intent_analysis (example_env (JDict overwrite_items))) = Inr overwrite_items"
    by (simp add: example_env_def)
  have h2: "as_dict (case map_of overwrite_items ''extracted'' of
                       Some v \<Rightarrow> v | None \<Rightarrow> JDict []) = Inr overwrite_extracted"
    by (simp add: overwrite_items_def)
  have e: "get0 overwrite_extracted ''appointment_type'' = JStr ''physical_exam''"
    "get0 overwrite_extracted ''date'' = JStr ''2025-01-20''"
    "get0 overwrite_extracted ''time_preference'' = JStr ''morning''"
    "get0 overwrite_extracted ''name'' = JStr ''Bob''"
    "get0 overwrite_extracted ''reason'' = JNull"
    by (simp_all add: overwrite_extracted_def get0_def)
  have b: "(case sessions example_store
                   (request_session_id
                      (example_request ''rather a physical on the 20th, in the morning'')) of
              None \<Rightarrow> new_session (request_session_id
                        (example_request ''rather a physical on the 20th, in the morning''))
            | Some state \<Rightarrow>
                if restarts (request_session_id
                               (example_request ''rather a physical on the 20th, in the morning''))
                     (example_request ''rather a physical on the 20th, in the morning'')
                     example_store
                then new_session (session_id state) else state) = example_session"
    by (simp add: example_store_def example_request_def restarts_def example_session_def)
  have n: "name (patient_info example_session) = JStr ''Ann''"
    "reason (booking_details example_session) = JStr ''checkup''"
    by (simp_all add: example_session_def)
  from chat_merge_policy[OF h1 h2, of example_schedule
      "example_request ''rather a physical on the 20th, in the morning''" example_store]
  obtain state' where
    "sessions (snd (chat (example_env (JDict overwrite_items)) example_schedule
                       (example_request ''rather a physical on the 20th, in the morning'')
                       example_store))
        (request_session_id
           (example_request ''rather a physical on the 20th, in the morning'')) = Some state'"
    "appointment_type (booking_details state') = JStr ''physical_exam''"
    "preferred_date (booking_details state') = JStr ''2025-01-20''"
    "preferred_time (booking_details state') = JStr ''morning''"
    "reason (booking_details state') = JStr ''checkup''"
    "name (patient_info state') = JStr ''Ann''"
    unfolding b e by (auto simp add: n)
  with h1 h2 show ?thesis by blast
qed

text \<open>
  The claim as stated speaks of every value that is not null. The empty string is not
  null, and the stored date stays.
\<close>

theorem chat_keeps_date_on_empty_string:
  "get0 empty_date_extracted ''date'' = JStr [] \<and>
   JStr [] \<noteq> JNull \<and>
   map_option (preferred_date \<circ> booking_details) (sessions example_store ''s1'') =
     Some (JStr ''2025-01-13'') \<and>
   map_option (preferred_date \<circ> booking_details)
     (sessions (snd (chat (example_env empty_date_analysis) example_schedule
                      (example_request ''any day'') example_store)) ''s1'') =
     Some (JStr ''2025-01-13'')"
  by code_simp

subsection \<open>The slots in the response envelope\<close>

lemma slots_to_show_cong:
  "booking_details s = booking_details s' \<Longrightarrow> slots_to_show SD an s = slots_to_show SD an s'"
  by (simp add: slots_to_show_def)

lemma envelope_fields:
  "\<exists>kvs. envelope tx s an av v b = JDict kvs \<and>
     get0 kvs ''booking'' = b \<and>
     get0 kvs ''available_slots'' = JList (if \<not> truthy v then av else [])"
  unfolding envelope_def
  by (intro exI conjI, rule refl) (simp_all add: get0_def)

lemma book_appointment_result:
  "book_appointment env bd l = (b, l') \<Longrightarrow> b \<noteq> JNull"
  by (auto simp add: book_appointment_def Let_def)

text \<open>
  Claim C10. In the response envelope of a chat call, the list under "available_slots" is
  empty whenever the field "booking" is not null; when "booking" is null, the list is
  the one computed in the call (the slots to show for the analysis and the booking
  details of the session), and the ledger is as it was before the call.
\<close>

theorem chat_envelope_slots:
  assumes "fst (chat env SD req store) = Inr response"
  shows "\<exists>kvs analysis state'.
     response = JDict kvs \<and>
     as_dict (intent_analysis env) = Inr analysis \<and>
     sessions (snd (chat env SD req store)) (request_session_id req) = Some state' \<and>
     (get0 kvs ''booking'' \<noteq> JNull \<longrightarrow> get0 kvs ''available_slots'' = JList []) \<and>
     (get0 kvs ''booking'' = JNull \<longrightarrow>
        get0 kvs ''available_slots'' = JList (slots_to_show SD analysis state') \<and>
        bookings (snd (chat env SD req store)) = bookings store)"
proof -
  obtain r store' where c: "chat env SD req store = (r, store')"
    by (cases "chat env SD req store")
  then have sn: "snd (chat env SD req store) = store'" by simp
  from c assms have r: "r = Inr response" by simp
  from c show ?thesis
  proof (cases rule: chat_cases)
    case (no_analysis e)
    from r no_analysis(1) show ?thesis by simp
  next
    case (no_extracted an e)
    from r no_extracted(1) show ?thesis by simp
  next
    case (slot_error an ex e)
    from r slot_error(1) show ?thesis by simp
  next
    case (responded an ex selected final ledger)
    have st: "sessions store' (request_session_id req) = Some final"
      by (simp add: responded(5) save_session_simps)
    have bk: "bookings store' = ledger"
      by (simp add: responded(5))
    have sl: "slots_to_show SD an selected = slots_to_show SD an final"
      by (rule slots_to_show_cong) (simp add: respond_frame(6)[OF responded(4)])
    from responded(4) show ?thesis
    proof (cases rule: respond_cases)
      case (raised e)
      from r raised(1) show ?thesis by simp
    next
      case (booked_raised v bd b e)
      from r booked_raised(5) show ?thesis by simp
    next
      case (declined v)
      from declined(3) r have
        e: "response = envelope (oracle_reply env) selected an (slots_to_show SD an selected) v JNull"
        by simp
      from envelope_fields[of "oracle_reply env" selected an "slots_to_show SD an selected"
          v JNull]
      obtain kvs where f: "response = JDict kvs" and
        g: "get0 kvs ''booking'' = JNull"
           "get0 kvs ''available_slots'' =
              JList (if \<not> truthy v then slots_to_show SD an selected else [])"
        unfolding e by blast
      from g(2) declined(2) sl have
        g2: "get0 kvs ''available_slots'' = JList (slots_to_show SD an final)"
        by simp
      have b2: "bookings store' = bookings store"
        using bk declined(5) by simp
      have 4: "get0 kvs ''booking'' \<noteq> JNull \<longrightarrow> get0 kvs ''available_slots'' = JList []"
        using g(1) by simp
      have 5: "get0 kvs ''booking'' = JNull \<longrightarrow>
        get0 kvs ''available_slots'' = JList (slots_to_show SD an final) \<and>
        bookings store' = bookings store"
        using g2 b2 by simp
      show ?thesis
        unfolding sn
        by (rule exI[of _ kvs], rule exI[of _ an], rule exI[of _ final])
          (intro conjI f responded(1) st 4 5)
    next
      case (booked v bd b tx)
      from booked(5) r have
        e: "response = envelope tx (selected\<lparr>phase := COMPLETE\<rparr>) an
              (slots_to_show SD an selected) v b"
        by simp
      from envelope_fields[of tx "selected\<lparr>phase := COMPLETE\<rparr>" an
          "slots_to_show SD an selected" v b]
      obtain kvs where f: "response = JDict kvs" and
        g: "get0 kvs ''booking'' = b"
           "get0 kvs ''available_slots'' =
              JList (if \<not> truthy v then slots_to_show SD an selected else [])"
        unfolding e by blast
      from g booked(2) book_appointment_result[OF booked(4)] have
        h: "get0 kvs ''booking'' \<noteq> JNull" "get0 kvs ''available_slots'' = JList []"
        by simp_all
      have 4: "get0 kvs ''booking'' \<noteq> JNull \<longrightarrow> get0 kvs ''available_slots'' = JList []"
        using h by simp
      have 5: "get0 kvs ''booking'' = JNull \<longrightarrow>
        get0 kvs ''available_slots'' = JList (slots_to_show SD an final) \<and>
        bookings store' = bookings store"
        using h by simp
      show ?thesis
        unfolding sn
        by (rule exI[of _ kvs], rule exI[of _ an], rule exI[of _ final])
          (intro conjI f responded(1) st 4 5)
    qed
  qed
qed

theorem chat_envelope_slots_witness:
  "\<exists>response kvs.
     fst (chat (example_env booking_analysis) example_schedule
            (example_request ''555-0100, the first one please'') example_store) = Inr response \<and>
     response = JDict kvs \<and>
     get0 kvs ''booking'' \<noteq> JNull \<and>
     get0 kvs ''available_slots'' = JList [] \<and>
     slots_to_show example_schedule booking_items
       (example_session\<lparr>patient_info := (patient_info example_session)\<lparr>phone := JStr ''555-0100''\<rparr>,
          booking_details := (booking_details example_session)\<lparr>selected_slot := example_afternoon_slot\<rparr>\<rparr>)
       = [example_afternoon_slot]"
proof -
  have r: "\<not> isl (fst (chat (example_env booking_analysis) example_schedule
            (example_request ''555-0100, the first one please'') example_store))"
    by code_simp
  then obtain response where
    h: "fst (chat (example_env booking_analysis) example_schedule
            (example_request ''555-0100, the first one please'') example_store) = Inr response"
    by (cases "fst (chat (example_env booking_analysis) example_schedule
            (example_request ''555-0100, the first one please'') example_store)") auto
  have b: "case fst (chat (example_env booking_analysis) example_schedule
            (example_request ''555-0100, the first one please'') example_store) of
             Inr (JDict kvs) \<Rightarrow> get0 kvs ''booking'' \<noteq> JNull
           | _ \<Rightarrow> False"
    by code_simp
  have s: "slots_to_show example_schedule booking_items
       (example_session\<lparr>patient_info := (patient_info example_session)\<lparr>phone := JStr ''555-0100''\<rparr>,
          booking_details := (booking_details example_session)\<lparr>selected_slot := example_afternoon_slot\<rparr>\<rparr>)
       = [example_afternoon_slot]"
    by code_simp
  from chat_envelope_slots[OF h] obtain kvs where
    k: "response = JDict kvs"
      "get0 kvs ''booking'' \<noteq> JNull \<longrightarrow> get0 kvs ''available_slots'' = JList []"
    by blast
  from b h k(1) have "get0 kvs ''booking'' \<noteq> JNull" by simp
  with k h s show ?thesis by blast
qed


subsection \<open>The restart request\<close>








section \<open>Properties of the reset endpoint\<close>

text \<open>
  Claim C8. Resetting a session twice gives the same status and the same store as
  resetting it once; and resetting a session that is in its initial state (greeting phase,
  empty patient info, empty booking details, all flags false) answers "reset" and leaves
  the store as it is.
\<close>

theorem reset_session_idempotent:
  "reset_session sid (snd (reset_session sid store)) = reset_session sid store \<and>
   (\<forall>state. sessions store sid = Some state \<and> phase state = GREETING \<and>
       patient_info state = empty_patient_info \<and>
       booking_details state = empty_booking_details \<and>
       collected_info state = initial_collected_info \<longrightarrow>
       reset_session sid store = (''reset'', store))"
proof (intro conjI allI impI)
  show "reset_session sid (snd (reset_session sid store)) = reset_session sid store"
    by (cases "sessions store sid") (simp_all add: reset_session_def save_session_def)
next
  fix state
  assume a: "sessions store sid = Some state \<and> phase state = GREETING \<and>
       patient_info state = empty_patient_info \<and>
       booking_details state = empty_booking_details \<and>
       collected_info state = initial_collected_info"
  then have e1: "state\<lparr>phase := GREETING, patient_info := empty_patient_info,
                    booking_details := empty_booking_details,
                    collected_info := initial_collected_info\<rparr> = state"
    by (cases state) simp
  from a have e2: "(sessions store)(sid \<mapsto> state) = sessions store"
    by (simp add: map_upd_triv)
  from a have "reset_session sid store =
      (''reset'', store\<lparr>sessions := (sessions store)(sid \<mapsto>
         state\<lparr>phase := GREETING, patient_info := empty_patient_info,
               booking_details := empty_booking_details,
               collected_info := initial_collected_info\<rparr>)\<rparr>)"
    by (simp add: reset_session_def save_session_def)
  also have "\<dots> = (''reset'', store)"
    by (simp only: e1 e2) simp
  finally show "reset_session sid store = (''reset'', store)" .
qed

theorem reset_session_idempotent_witness:
  "sessions fresh_store ''s1'' = Some (new_session ''s1'') \<and>
   phase (new_session ''s1'') = GREETING \<and>
   patient_info (new_session ''s1'') = empty_patient_info \<and>
   booking_details (new_session ''s1'') = empty_booking_details \<and>
   collected_info (new_session ''s1'') = initial_collected_info \<and>
   reset_session ''s1'' fresh_store = (''reset'', fresh_store) \<and>
   reset_session ''s1'' (snd (reset_session ''s1'' example_store)) =
     reset_session ''s1'' example_store"
proof -
  have h: "sessions fresh_store ''s1'' = Some (new_session ''s1'') \<and>
           phase (new_session ''s1'') = GREETING \<and>
           patient_info (new_session ''s1'') = empty_patient_info \<and>
           booking_details (new_session ''s1'') = empty_booking_details \<and>
           collected_info (new_session ''s1'') = initial_collected_info"
    by (simp add: fresh_store_def new_session_def)
  from reset_session_idempotent[of "''s1''" fresh_store] h
  have "reset_session ''s1'' fresh_store = (''reset'', fresh_store)"
    by blast
  with h reset_session_idempotent[of "''s1''" example_store] show ?thesis
    by blast
qed

section \<open>Properties of the slot selection\<close>

lemma is_slot_infoI:
  "is_slot_info (JDict [(''day'', a), (''date'', b), (''start_time'', c), (''end_time'', d),
                        (''duration'', e)])"
  by (simp add: is_slot_info_def)

lemma is_slot_infoD:
  assumes "is_slot_info v"
  obtains a b c d e where
    "v = JDict [(''day'', a), (''date'', b), (''start_time'', c), (''end_time'', d),
                (''duration'', e)]"
  using assms unfolding is_slot_info_def
  by (auto split: json.splits list.splits prod.splits)

lemma visit_slot_shape:
  assumes "visit_slot SD t pref day dd slot = Inr (Some info)"
  shows "is_slot_info info"
proof -
  from assms obtain d st et du where
    "info = JDict [(''day'', JStr day), (''date'', d), (''start_time'', st),
                   (''end_time'', et), (''duration'', du)]"
    unfolding visit_slot_def
    by (auto simp: bind_r_Inr_iff Let_def split: if_splits)
  then show ?thesis by (simp add: is_slot_infoI)
qed

lemma get_available_slots_shape:
  assumes "slot \<in> set (get_available_slots SD t date pref)"
  shows "is_slot_info slot"
  by (rule get_available_slots_all[OF assms]) (rule visit_slot_shape)

lemma match_loop_find:
  assumes "\<forall>a \<in> set avail. is_slot_info a"
  shows "match_loop (JDict slot) avail =
           Inr (case find (slot_matches slot) avail of Some a \<Rightarrow> a | None \<Rightarrow> JDict slot)"
  using assms
proof (induction avail)
  case Nil
  then show ?case by simp
next
  case (Cons a avail)
  from Cons.prems have "is_slot_info a" by simp
  then obtain dy d st et du where
    a: "a = JDict [(''day'', dy), (''date'', d), (''start_time'', st), (''end_time'', et),
                   (''duration'', du)]"
    by (rule is_slot_infoD)
  from Cons have IH: "match_loop (JDict slot) avail =
           Inr (case find (slot_matches slot) avail of Some a \<Rightarrow> a | None \<Rightarrow> JDict slot)"
    by simp
  have m: "slot_matches slot a \<longleftrightarrow>
             py_eq d (get0 slot ''date'') \<and> py_eq st (get0 slot ''start_time'')"
    by (simp add: a slot_matches_def get0_def)
  have g: "py_getitem a (JStr ''date'') = Inr d" "py_getitem a (JStr ''start_time'') = Inr st"
    by (simp_all add: a)
  have s: "\<And>k. dict_get (JDict slot) (JStr k) JNull = Inr (get0 slot k)"
    by (simp add: get0_def)
  show ?case
    by (simp only: match_loop.simps g s bind_r.simps IH find.simps m) auto
qed

lemma get_available_slots_no_type:
  assumes "\<not> truthy t" "t \<noteq> JStr []"
  shows "get_available_slots SD t date pref = []"
proof -
  have "find_slots SD t date pref = Inr [] \<or> (\<exists>e. find_slots SD t date pref = Inl e)"
    using assms
    by (cases t; cases SD) (simp_all add: find_slots_def)
  then show ?thesis by (auto simp add: get_available_slots_def)
qed

lemma select_specific_slot_backfill:
  assumes "''end_time'' \<notin> fst ` set slot" "appointment_type (booking_details s) \<noteq> JStr []"
  shows "select_specific_slot SD (JDict slot) s =
     Inr (s\<lparr>booking_details := (booking_details s)\<lparr>selected_slot :=
              (case find (slot_matches slot)
                      (get_available_slots SD (appointment_type (booking_details s))
                         (get0 slot ''date'') JNull) of
                 Some a \<Rightarrow> a | None \<Rightarrow> JDict slot)\<rparr>,
            phase := COLLECTING_INFO\<rparr>)"
proof -
  have e: "str_in ''end_time'' (JDict slot) = Inr False"
    using assms(1) by simp
  have d: "dict_get (JDict slot) (JStr ''date'') JNull = Inr (get0 slot ''date'')"
    by (simp add: get0_def)
  have m: "match_loop (JDict slot)
             (get_available_slots SD (appointment_type (booking_details s))
                (get0 slot ''date'') JNull) =
           Inr (case find (slot_matches slot)
                      (get_available_slots SD (appointment_type (booking_details s))
                         (get0 slot ''date'') JNull) of
                 Some a \<Rightarrow> a | None \<Rightarrow> JDict slot)"
    by (rule match_loop_find) (simp add: get_available_slots_shape)
  show ?thesis
  proof (cases "truthy (appointment_type (booking_details s))")
    case True
    show ?thesis
      unfolding select_specific_slot_def
      by (simp only: e d m bind_r.simps True simp_thms if_True)
  next
    case False
    have n: "get_available_slots SD (appointment_type (booking_details s))
               (get0 slot ''date'') JNull = []"
      by (rule get_available_slots_no_type[OF False assms(2)])
    show ?thesis
      unfolding select_specific_slot_def
      by (simp only: e n bind_r.simps False simp_thms if_False find.simps option.case)
  qed
qed

lemma opened_session_type:
  assumes "case sessions store (request_session_id req) of
             None \<Rightarrow> True
           | Some state \<Rightarrow> appointment_type (booking_details state) \<noteq> JStr []"
  shows "appointment_type (booking_details (opened_session env req store)) \<noteq> JStr []"
  using assms
  by (cases "sessions store (request_session_id req)")
    (simp_all add: opened_session_def add_message_fields restart_check_def new_session_def
      empty_booking_details_def)

lemma merge_extracted_type:
  assumes "appointment_type (booking_details s) \<noteq> JStr []"
  shows "appointment_type (booking_details (merge_extracted ex s)) \<noteq> JStr []"
  using assms by (auto simp add: merge_extracted_overwritten)

text \<open>The stored appointment type is never the empty string: a new or reset session has
  none, and the merge stores true values only. The chat endpoint keeps this.\<close>

lemma chat_type_never_empty_text:
  assumes "\<forall>sid state. sessions store sid = Some state \<longrightarrow>
             appointment_type (booking_details state) \<noteq> JStr []"
  shows "\<forall>sid state. sessions (snd (chat env SD req store)) sid = Some state \<longrightarrow>
           appointment_type (booking_details state) \<noteq> JStr []"
proof -
  obtain r store' where c: "chat env SD req store = (r, store')"
    by (cases "chat env SD req store")
  then have sn: "snd (chat env SD req store) = store'" by simp
  have o: "appointment_type (booking_details (opened_session env req store)) \<noteq> JStr []"
    by (rule opened_session_type) (simp add: assms split: option.splits)
  from c show ?thesis
    unfolding sn
  proof (cases rule: chat_stored)
    case (unmerged e)
    with assms o show "\<forall>sid state. sessions store' sid = Some state \<longrightarrow>
           appointment_type (booking_details state) \<noteq> JStr []"
      by (auto split: if_splits)
  next
    case (merged an ex final)
    from merged(8) merge_extracted_type[OF o, of ex]
    have "appointment_type (booking_details final) \<noteq> JStr []" by simp
    with assms merged(3) show "\<forall>sid state. sessions store' sid = Some state \<longrightarrow>
           appointment_type (booking_details state) \<noteq> JStr []"
      by (auto split: if_splits)
  qed
qed

text \<open>
  Claim C4. When the oracle extracts a specific slot that is a non-empty dictionary without
  the key "end_time", the chat endpoint stores as selected slot the first slot that the
  slot finder returns for the stored appointment type and the date of the extracted slot
  (no time filter) whose date and start time equal those of the extracted slot; that slot
  has the five keys of a schedule slot, "end_time" and "duration" among them. When the
  slot finder returns no such slot, the extracted slot is stored as it is, without an end
  time. The stored appointment type of the session is assumed not to be the empty string,
  which holds of every session that the endpoints produce.
\<close>

theorem chat_specific_slot_backfill:
  assumes "as_dict (intent_analysis env) = Inr analysis"
    "as_dict (case map_of analysis ''extracted'' of Some v \<Rightarrow> v | None \<Rightarrow> JDict []) =
       Inr extracted"
    "get0 extracted ''specific_slot'' = JDict slot" "slot \<noteq> []"
    "''end_time'' \<notin> fst ` set slot"
    "case sessions store (request_session_id req) of
       None \<Rightarrow> True
     | Some state \<Rightarrow> appointment_type (booking_details state) \<noteq> JStr []"
  shows "\<exists>state'.
     sessions (snd (chat env SD req store)) (request_session_id req) = Some state' \<and>
     (case find (slot_matches slot)
             (get_available_slots SD (appointment_type (booking_details state'))
                (get0 slot ''date'') JNull) of
        Some avail_slot \<Rightarrow>
          selected_slot (booking_details state') = avail_slot \<and> is_slot_info avail_slot
      | None \<Rightarrow> selected_slot (booking_details state') = JDict slot)"
proof -
  let ?m = "merge_extracted extracted (opened_session env req store)"
  let ?found = "find (slot_matches slot)
                  (get_available_slots SD (appointment_type (booking_details ?m))
                     (get0 slot ''date'') JNull)"
  have ty: "appointment_type (booking_details ?m) \<noteq> JStr []"
    by (rule merge_extracted_type) (rule opened_session_type[OF assms(6)])
  have hs: "handle_slot SD extracted ?m =
     Inr (?m\<lparr>booking_details := (booking_details ?m)\<lparr>selected_slot :=
              (case ?found of Some a \<Rightarrow> a | None \<Rightarrow> JDict slot)\<rparr>,
            phase := COLLECTING_INFO\<rparr>)"
    using assms(3,4) select_specific_slot_backfill[OF assms(5) ty, of SD]
    by (simp add: handle_slot_def)
  have shape: "is_slot_info a" if "?found = Some a" for a
  proof -
    from that have "a \<in> set (get_available_slots SD (appointment_type (booking_details ?m))
                              (get0 slot ''date'') JNull)"
      by (auto simp add: find_Some_iff)
    then show ?thesis by (rule get_available_slots_shape)
  qed
  obtain r store' where c: "chat env SD req store = (r, store')"
    by (cases "chat env SD req store")
  then have sn: "snd (chat env SD req store) = store'" by simp
  from c have "\<exists>state'. sessions store' (request_session_id req) = Some state' \<and>
      appointment_type (booking_details state') = appointment_type (booking_details ?m) \<and>
      selected_slot (booking_details state') =
        (case ?found of Some a \<Rightarrow> a | None \<Rightarrow> JDict slot)"
  proof (cases rule: chat_cases)
    case (no_analysis e)
    with assms(1) show ?thesis by simp
  next
    case (no_extracted an e)
    with assms(1,2) show ?thesis by simp
  next
    case (slot_error an ex e)
    from slot_error(2,3) assms(1,2) have "ex = extracted" by simp
    with slot_error(5) hs show ?thesis by simp
  next
    case (responded an ex selected final ledger)
    from responded(1,2) assms(1,2) have "ex = extracted" by simp
    with responded(3) hs have sel: "selected =
        ?m\<lparr>booking_details := (booking_details ?m)\<lparr>selected_slot :=
              (case ?found of Some a \<Rightarrow> a | None \<Rightarrow> JDict slot)\<rparr>,
            phase := COLLECTING_INFO\<rparr>"
      by simp
    have "booking_details final = booking_details selected"
      by (rule respond_frame(6)[OF responded(4)])
    then have "appointment_type (booking_details final) =
                 appointment_type (booking_details ?m)"
      "selected_slot (booking_details final) =
         (case ?found of Some a \<Rightarrow> a | None \<Rightarrow> JDict slot)"
      by (simp_all add: sel)
    moreover have "sessions store' (request_session_id req) = Some final"
      by (simp add: responded(5) save_session_simps)
    ultimately show ?thesis by blast
  qed
  then obtain state' where
    s: "sessions store' (request_session_id req) = Some state'" and
    t: "appointment_type (booking_details state') = appointment_type (booking_details ?m)" and
    v: "selected_slot (booking_details state') =
          (case ?found of Some a \<Rightarrow> a | None \<Rightarrow> JDict slot)"
    by blast
  have "case find (slot_matches slot)
               (get_available_slots SD (appointment_type (booking_details state'))
                  (get0 slot ''date'') JNull) of
          Some avail_slot \<Rightarrow>
            selected_slot (booking_details state') = avail_slot \<and> is_slot_info avail_slot
        | None \<Rightarrow> selected_slot (booking_details state') = JDict slot"
    unfolding t using v shape by (cases ?found) simp_all
  with s show ?thesis
    unfolding sn by (intro exI[of _ state'] conjI)
qed

theorem chat_specific_slot_backfill_witness:
  "as_dict (intent_analysis (example_env (JDict specific_items))) = Inr specific_items \<and>
   as_dict (case map_of specific_items ''extracted'' of Some v \<Rightarrow> v | None \<Rightarrow> JDict []) =
     Inr specific_extracted \<and>
   get0 specific_extracted ''specific_slot'' = JDict specific_slot \<and>
   specific_slot \<noteq> [] \<and>
   ''end_time'' \<notin> fst ` set specific_slot \<and>
   (case sessions example_store (request_session_id (example_request ''Monday at 1 pm'')) of
      None \<Rightarrow> True
    | Some state \<Rightarrow> appointment_type (booking_details state) \<noteq> JStr []) \<and>
   (\<exists>state'.
      sessions (snd (chat (example_env (JDict specific_items)) example_schedule
                       (example_request ''Monday at 1 pm'') example_store))
        (request_session_id (example_request ''Monday at 1 pm'')) = Some state' \<and>
      selected_slot (booking_details state') = example_afternoon_slot)"
proof -
  have h1: "as_dict (intent_analysis (example_env (JDict specific_items))) = Inr specific_items"
    by (simp add: example_env_def)
  have h2: "as_dict (case map_of specific_items ''extracted'' of
                       Some v \<Rightarrow> v | None \<Rightarrow> JDict []) = Inr specific_extracted"
    by (simp add: specific_items_def)
  have h3: "get0 specific_extracted ''specific_slot'' = JDict specific_slot"
    by (simp add: specific_extracted_def get0_def)
  have h4: "specific_slot \<noteq> []"
    by (simp add: specific_slot_def)
  have h5: "''end_time'' \<notin> fst ` set specific_slot"
    by (simp add: specific_slot_def)
  have h6: "case sessions example_store (request_session_id (example_request ''Monday at 1 pm'')) of
              None \<Rightarrow> True
            | Some state \<Rightarrow> appointment_type (booking_details state) \<noteq> JStr []"
    by (simp add: example_store_def example_request_def example_session_def)
  from chat_specific_slot_backfill[OF h1 h2 h3 h4 h5 h6, of example_schedule]
  obtain state' where
    s: "sessions (snd (chat (example_env (JDict specific_items)) example_schedule
                       (example_request ''Monday at 1 pm'') example_store))
          (request_session_id (example_request ''Monday at 1 pm'')) = Some state'" and
    f: "case find (slot_matches specific_slot)
               (get_available_slots example_schedule (appointment_type (booking_details state'))
                  (get0 specific_slot ''date'') JNull) of
          Some avail_slot \<Rightarrow>
            selected_slot (booking_details state') = avail_slot \<and> is_slot_info avail_slot
        | None \<Rightarrow> selected_slot (booking_details state') = JDict specific_slot"
    by blast
  have "map_option (appointment_type \<circ> booking_details)
          (sessions (snd (chat (example_env (JDict specific_items)) example_schedule
                       (example_request ''Monday at 1 pm'') example_store))
          (request_session_id (example_request ''Monday at 1 pm''))) = Some (JStr ''followup'')"
    by code_simp
  with s have t: "appointment_type (booking_details state') = JStr ''followup''"
    by simp
  have "find (slot_matches specific_slot)
          (get_available_slots example_schedule (JStr ''followup'')
             (get0 specific_slot ''date'') JNull) = Some example_afternoon_slot"
    by code_simp
  with f t have "selected_slot (booking_details state') = example_afternoon_slot"
    by simp
  with s h1 h2 h3 h4 h5 h6 show ?thesis by blast
qed

text \<open>
  A slot number that \<^verbatim>\<open>int\<close> rejects with a \<^verbatim>\<open>ValueError\<close>, or one outside the list of
  available slots, leaves the session as it is; one that \<^verbatim>\<open>int\<close> rejects with a
  \<^verbatim>\<open>TypeError\<close> ends the call.
\<close>

lemma select_slot_by_number_ignored:
  assumes "py_int n = Inl ValueError \<or>
           (\<exists>k. py_int n = Inr k \<and>
                (k < 1 \<or>
                 int (length (get_available_slots SD (appointment_type (booking_details s))
                                (preferred_date (booking_details s))
                                (preferred_time (booking_details s)))) < k))"
  shows "select_slot_by_number SD n s = Inr s"
  using assms by (auto simp add: select_slot_by_number_def Let_def)

lemma select_slot_by_number_raises:
  assumes "py_int n = Inl TypeError"
  shows "select_slot_by_number SD n s = Inl TypeError"
  using assms by (simp add: select_slot_by_number_def Let_def)

text \<open>
  Claim C5 at a failing input: the oracle gives the list [1, 2] as slot number. The list is
  a true value, \<^verbatim>\<open>int\<close> raises a \<^verbatim>\<open>TypeError\<close> for it, the handler catches only
  \<^verbatim>\<open>ValueError\<close> and \<^verbatim>\<open>IndexError\<close>, and the call ends with the exception.
\<close>

theorem chat_slot_selection_list_raises:
  "truthy (JList [JInt 1, JInt 2]) \<and>
   py_int (JList [JInt 1, JInt 2]) = Inl TypeError \<and>
   fst (chat (example_env list_selection_analysis) example_schedule
          (example_request ''either the first or the second'') example_store) = Inl TypeError"
  by code_simp
end
